theory Spec2Isabelle
  imports
    Complex_Main
    "HOL-Library.Char_ord"
    "HOL-Library.List_Lexorder"
    "HOL-Library.Product_Lexorder"
begin

section \<open>Strings\<close>

text \<open>
  Python strings are modelled as \<open>string\<close> (lists of 8-bit characters); the helpers below
  are the ASCII behaviour of \<^verbatim>\<open>str.strip\<close>, \<^verbatim>\<open>str.upper\<close>, \<^verbatim>\<open>in\<close>, \<^verbatim>\<open>str.split(sep, 1)\<close> and
  of the format specifications \<^verbatim>\<open>{year}\<close> and \<^verbatim>\<open>{next_value:06d}\<close>.
\<close>

definition isspace :: "char \<Rightarrow> bool" where
  "isspace c = (let n = (of_char c :: nat) in (9 \<le> n \<and> n \<le> 13) \<or> (28 \<le> n \<and> n \<le> 32))"

definition strip :: "string \<Rightarrow> string" where
  "strip s = rev (dropWhile isspace (rev (dropWhile isspace s)))"

definition upper_char :: "char \<Rightarrow> char" where
  "upper_char c =
     (case map_of (zip ''abcdefghijklmnopqrstuvwxyz'' ''ABCDEFGHIJKLMNOPQRSTUVWXYZ'') c of
        None \<Rightarrow> c
      | Some u \<Rightarrow> u)"

definition upper :: "string \<Rightarrow> string" where
  "upper s = map upper_char s"

text \<open>\<^verbatim>\<open>s.split(sep, 1)\<close> when \<^verbatim>\<open>sep in s\<close>: the text before and after the leftmost occurrence.\<close>

fun split_once :: "string \<Rightarrow> string \<Rightarrow> (string \<times> string) option" where
  "split_once sep [] = (if sep = [] then Some ([], []) else None)"
| "split_once sep (c # cs) =
     (if take (length sep) (c # cs) = sep then Some ([], drop (length sep) (c # cs))
      else (case split_once sep cs of
              None \<Rightarrow> None
            | Some (a, b) \<Rightarrow> Some (c # a, b)))"

definition digit_char :: "nat \<Rightarrow> char" where
  "digit_char d = ''0123456789'' ! (d mod 10)"

fun str_nat :: "nat \<Rightarrow> string" where
  "str_nat n = (if n < 10 then [digit_char n] else str_nat (n div 10) @ [digit_char (n mod 10)])"

declare str_nat.simps [simp del]

definition zfill :: "nat \<Rightarrow> string \<Rightarrow> string" where
  "zfill w s = replicate (w - length s) (CHR ''0'') @ s"

section \<open>Tables\<close>

text \<open>
  The rows of the tables the handlers read and write, with the columns named by the SQL
  statements of \<^verbatim>\<open>app.py\<close>. A quantity is the double produced by \<^verbatim>\<open>float(quantity)\<close>; a
  finite double is a rational number and is stored as that number (infinities and NaN are
  outside the model). Sums of quantities are not taken in exact arithmetic: see \<open>sql_sum\<close>.
\<close>

record ticket =
  ticket_id :: nat
  ticket_number :: string
  ticket_year :: nat
  ticket_sequence :: nat
  direction :: string
  created_at :: string
  job_id :: "int option"
  job_code_snapshot :: string
  job_name_snapshot :: string
  customer_snapshot :: string
  truck_id :: "int option"
  truck_number_snapshot :: string
  material_id :: "int option"
  material_name_snapshot :: string
  quantity :: rat
  unit_label :: string
  ticket_notes :: string
  pdf_path :: string
  pdf_blob :: string

record job =
  jc_id :: int
  job_code :: string
  job_name :: string
  customer :: string
  active :: int
  source_updated_at :: "string option"
  refreshed_at :: string

record truck =
  tr_id :: int
  truck_number :: string

record material =
  mt_id :: int
  material_name :: string

text \<open>
  Modelled from the spec: \<^verbatim>\<open>schema.sql\<close> is not among the sources. The logical schema has
  \<^verbatim>\<open>ticket_sequence(year UNIQUE, last_value)\<close>, one row per year, which \<open>sequence_table\<close>
  holds as a map from the year to its last value.
\<close>

record tables =
  sequence_table :: "nat \<rightharpoonup> nat"
  tickets :: "ticket list"
  jobs_cache :: "job list"
  trucks :: "truck list"
  materials :: "material list"

datatype exn =
    ValueError
  | TypeError
  | RuntimeError string
  | OperationalError
  | IntegrityError
  | RenderError
  | OSError

datatype response =
    Flash string string
  | Error500 exn

datatype 'a flow =
    Ok 'a
  | Return response
  | Raise exn

section \<open>The world outside the handlers\<close>

text \<open>
  What one request observes of the clock, of the Python and SQLite library functions and of
  the file system, printer and PDF library. \<open>None\<close> stands for the call raising.
  \<^item> \<open>now_year\<close>: \<^verbatim>\<open>datetime.now().year\<close>; \<open>now_iso\<close>: \<^verbatim>\<open>datetime.now().isoformat(timespec="seconds")\<close>;
  \<^item> \<open>today\<close>, \<open>today_minus_14\<close>: \<^verbatim>\<open>datetime.now().date().isoformat()\<close> and the same 14 days earlier;
  \<^item> \<open>to_float\<close>: \<^verbatim>\<open>float(s)\<close>; \<open>to_int\<close>: \<^verbatim>\<open>int(s)\<close>; \<open>None\<close> is the \<^verbatim>\<open>ValueError\<close>;
  \<^item> \<open>fromisoformat\<close>: \<^verbatim>\<open>datetime.fromisoformat(s).isoformat(timespec="seconds")\<close>;
  \<^item> \<open>sql_int\<close>: the integer SQLite compares a text parameter as against an integer column;
  \<^item> \<open>sql_date\<close>: SQLite's \<^verbatim>\<open>date(s)\<close>, \<open>None\<close> for NULL;
  \<^item> \<open>sql_sum\<close>: SQLite's \<^verbatim>\<open>COALESCE(SUM(t.quantity), 0)\<close> over the quantities of a group of
    rows, listed in the order of the table: a sum in double precision, rounded, which
    depends on the order and need not be the exact sum of the numbers;
  \<^item> \<open>pdf_bytes_result\<close>: what \<^verbatim>\<open>to_pdf_bytes(row)\<close> returns in this request;
  \<^item> \<open>save_pdf_ok\<close>, \<open>insert_error\<close>, \<open>commit_error\<close>, \<open>print_error\<close>: whether writing the file, the
    INSERT, the COMMIT and \<^verbatim>\<open>print_pdf_file\<close> fail.
\<close>

record env =
  now_year :: nat
  now_iso :: string
  today :: string
  today_minus_14 :: string
  to_float :: "string \<Rightarrow> rat option"
  to_int :: "string \<Rightarrow> int option"
  fromisoformat :: "string \<Rightarrow> string option"
  sql_int :: "string \<Rightarrow> int option"
  sql_date :: "string \<Rightarrow> string option"
  sql_sum :: "rat list \<Rightarrow> rat"
  pdf_bytes_result :: "string option"
  pdf_dir :: string
  save_pdf_ok :: bool
  insert_error :: bool
  commit_error :: bool
  print_error :: "string option"

section \<open>The SQLite connection\<close>

text \<open>
  The database file holds the committed tables. \<^verbatim>\<open>BEGIN IMMEDIATE\<close> takes the single write lock
  of the file: \<open>writer\<close> is the connection holding it, with the tables as its open transaction
  sees them. Every request has a connection of its own (\<^verbatim>\<open>get_db\<close>), closed by \<^verbatim>\<open>close_db\<close>
  when the request ends; closing discards an open transaction.
\<close>

record sqlite =
  committed :: tables
  writer :: "(nat \<times> tables) option"

definition view :: "nat \<Rightarrow> sqlite \<Rightarrow> tables" where
  "view cid s =
     (case writer s of
        None \<Rightarrow> committed s
      | Some (c, w) \<Rightarrow> if c = cid then w else committed s)"

definition begin_immediate :: "nat \<Rightarrow> sqlite \<Rightarrow> exn + sqlite" where
  "begin_immediate cid s =
     (case writer s of
        None \<Rightarrow> Inr (s\<lparr>writer := Some (cid, committed s)\<rparr>)
      | Some _ \<Rightarrow> Inl OperationalError)"

definition commit :: "env \<Rightarrow> nat \<Rightarrow> sqlite \<Rightarrow> exn + sqlite" where
  "commit e cid s =
     (if commit_error e then Inl OperationalError
      else (case writer s of
              None \<Rightarrow> Inr s
            | Some (c, w) \<Rightarrow> if c = cid then Inr \<lparr>committed = w, writer = None\<rparr> else Inr s))"

definition rollback :: "nat \<Rightarrow> sqlite \<Rightarrow> sqlite" where
  "rollback cid s =
     (case writer s of
        None \<Rightarrow> s
      | Some (c, w) \<Rightarrow> if c = cid then s\<lparr>writer := None\<rparr> else s)"

definition close_db :: "nat \<Rightarrow> sqlite \<Rightarrow> sqlite" where
  "close_db cid s = rollback cid s"

section \<open>Sequence allocation\<close>

text \<open>
  \<^verbatim>\<open>next_ticket_number(db)\<close>, run on the tables of the open transaction. \<^verbatim>\<open>INSERT OR IGNORE\<close>
  adds the year's row with 0 when the year has none; \<^verbatim>\<open>fetchone()\<close> returning no row would
  make \<^verbatim>\<open>row["last_value"]\<close> raise.
\<close>

definition next_ticket_number :: "env \<Rightarrow> tables \<Rightarrow> exn + (tables \<times> string \<times> nat \<times> nat)" where
  "next_ticket_number e d =
     (let year = now_year e;
          d1 = (if sequence_table d year = None
                then d\<lparr>sequence_table := (sequence_table d)(year \<mapsto> 0)\<rparr> else d)
      in case sequence_table d1 year of
           None \<Rightarrow> Inl TypeError
         | Some last_value \<Rightarrow>
             (let next_value = last_value + 1;
                  d2 = d1\<lparr>sequence_table := (sequence_table d1)(year \<mapsto> next_value)\<rparr>;
                  number = ''DT-'' @ str_nat year @ ''-'' @ zfill 6 (str_nat next_value)
              in Inr (d2, number, year, next_value)))"

section \<open>Ticket creation\<close>

type_synonym form = "string \<rightharpoonup> string"

text \<open>\<^verbatim>\<open>request.form.get(k, d)\<close> and \<^verbatim>\<open>request.form.get(k) or d\<close>.\<close>

definition form_get :: "form \<Rightarrow> string \<Rightarrow> string \<Rightarrow> string" where
  "form_get f k d = (case f k of None \<Rightarrow> d | Some v \<Rightarrow> v)"

definition form_get_or :: "form \<Rightarrow> string \<Rightarrow> string \<Rightarrow> string" where
  "form_get_or f k d = (case f k of None \<Rightarrow> d | Some v \<Rightarrow> if v = [] then d else v)"

text \<open>
  The local variables of \<^verbatim>\<open>new_ticket\<close> that are alive when the transaction starts
  (after the quantity has been parsed).
\<close>

record fields =
  req_direction :: string
  job_id_value :: "int option"
  req_job_code :: string
  req_job_name :: string
  req_customer :: string
  truck_id_value :: "int option"
  req_truck_number :: string
  material_id_value :: "int option"
  req_material_name :: string
  quantity_num :: rat
  req_unit :: string
  req_notes :: string
  auto_print :: bool
  use_now :: bool
  custom_datetime :: "string option"

text \<open>The three \<^verbatim>\<open>SELECT ... WHERE id = ?\<close> lookups; \<^verbatim>\<open>fetchone()\<close> gives the row or nothing.\<close>

definition select_job :: "env \<Rightarrow> tables \<Rightarrow> string \<Rightarrow> job option" where
  "select_job e d i = find (\<lambda>j. sql_int e i = Some (jc_id j)) (jobs_cache d)"

definition select_truck :: "env \<Rightarrow> tables \<Rightarrow> string \<Rightarrow> truck option" where
  "select_truck e d i = find (\<lambda>t. sql_int e i = Some (tr_id t)) (trucks d)"

definition select_material :: "env \<Rightarrow> tables \<Rightarrow> string \<Rightarrow> material option" where
  "select_material e d i = find (\<lambda>m. sql_int e i = Some (mt_id m)) (materials d)"

text \<open>
  Lines 549--561: the job snapshot, from the cache row when the identifier resolved, from the
  free text otherwise. The result is
  \<open>(job_id_value, job_code_snapshot, job_name_snapshot, customer)\<close>.
\<close>

definition job_snapshot ::
  "job option \<Rightarrow> string \<Rightarrow> string \<Rightarrow> int option \<times> string \<times> string \<times> string" where
  "job_snapshot jb job_entry cust =
     (case jb of
        Some j \<Rightarrow>
          (Some (jc_id j), job_code j, job_name j,
           if cust = [] then strip (customer j) else cust)
      | None \<Rightarrow>
          (case split_once '' - '' job_entry of
             Some (a, b) \<Rightarrow> (None, strip a, strip b, cust)
           | None \<Rightarrow> (None, job_entry, job_entry, cust)))"

text \<open>
  Lines 517--581 of \<^verbatim>\<open>new_ticket\<close> (a POST request): reading the form, the two validation
  redirects, the lookups, the snapshots and \<^verbatim>\<open>float(quantity)\<close>. Nothing is written here.
\<close>

definition validate_form :: "env \<Rightarrow> form \<Rightarrow> tables \<Rightarrow> response + fields" where
  "validate_form e form d =
     (let dir = upper (strip (form_get form ''direction'' []));
          jid = strip (form_get form ''job_id'' []);
          job_entry = strip (form_get form ''job_entry'' []);
          tid = strip (form_get form ''truck_id'' []);
          truck_entry = strip (form_get form ''truck_entry'' []);
          mid = strip (form_get form ''material_id'' []);
          material_entry = strip (form_get form ''material_entry'' []);
          cust = strip (form_get form ''customer'' []);
          qty = strip (form_get_or form ''quantity'' ''1'');
          un = strip (form_get_or form ''unit'' ''Load'');
          nts = strip (form_get form ''notes'' [])
      in if dir \<noteq> ''IN'' \<and> dir \<noteq> ''OUT''
         then Inl (Flash ''Direction must be IN or OUT.'' ''error'')
         else if job_entry = [] \<or> truck_entry = [] \<or> material_entry = [] \<or> qty = [] \<or> un = []
         then Inl (Flash ''Job, truck, material, quantity, and unit are required.'' ''error'')
         else
           (let jb = (if jid \<noteq> [] then select_job e d jid else None);
                trk = (if tid \<noteq> [] then select_truck e d tid else None);
                mat = (if mid \<noteq> [] then select_material e d mid else None);
                js = job_snapshot jb job_entry cust
            in case to_float e qty of
                 None \<Rightarrow> Inl (Flash ''Quantity must be numeric.'' ''error'')
               | Some q \<Rightarrow>
                   Inr \<lparr>req_direction = dir,
                        job_id_value = fst js,
                        req_job_code = fst (snd js),
                        req_job_name = fst (snd (snd js)),
                        req_customer = snd (snd (snd js)),
                        truck_id_value = map_option tr_id trk,
                        req_truck_number =
                          (case trk of Some t \<Rightarrow> truck_number t | None \<Rightarrow> truck_entry),
                        material_id_value = map_option mt_id mat,
                        req_material_name =
                          (case mat of Some m \<Rightarrow> material_name m | None \<Rightarrow> material_entry),
                        quantity_num = q,
                        req_unit = un,
                        req_notes = nts,
                        auto_print = (form ''auto_print'' = Some ''on''),
                        use_now = (form ''use_now'' = Some ''on''),
                        custom_datetime = form ''custom_datetime''\<rparr>))"

text \<open>Lines 586--596: the creation time, or the redirect that leaves the \<^verbatim>\<open>try\<close> block.\<close>

definition created_at_of :: "env \<Rightarrow> fields \<Rightarrow> response + string" where
  "created_at_of e v =
     (if use_now v then Inr (now_iso e)
      else (case custom_datetime v of
              None \<Rightarrow> Inl (Flash ''Please select a valid date and time.'' ''error'')
            | Some c \<Rightarrow>
                if c = [] then Inl (Flash ''Please select a valid date and time.'' ''error'')
                else (case fromisoformat e c of
                        None \<Rightarrow> Inl (Flash ''Invalid date format.'' ''error'')
                      | Some stamp \<Rightarrow> Inr stamp)))"

text \<open>\<^verbatim>\<open>save_pdf\<close>: the path of the written file.\<close>

definition save_pdf :: "env \<Rightarrow> string \<Rightarrow> string \<Rightarrow> string option" where
  "save_pdf e number bytes =
     (if save_pdf_ok e
      then Some (pdf_dir e @ ''/'' @ str_nat (now_year e) @ ''/'' @ number @ ''.pdf'')
      else None)"

text \<open>
  Modelled from the spec: \<^verbatim>\<open>schema.sql\<close> is not among the sources. The logical schema has
  \<^verbatim>\<open>tickets(id, ticket_number UNIQUE, ...)\<close>: the INSERT fails on a number that is already
  stored, and SQLite assigns the key \<^verbatim>\<open>id\<close> as one more than the largest key of the table.
\<close>

definition new_rowid :: "tables \<Rightarrow> nat" where
  "new_rowid d = fold max (map ticket_id (tickets d)) 0 + 1"

definition insert_ticket :: "env \<Rightarrow> tables \<Rightarrow> ticket \<Rightarrow> exn + tables" where
  "insert_ticket e d t =
     (if insert_error e then Inl OperationalError
      else if ticket_number t \<in> set (map ticket_number (tickets d)) then Inl IntegrityError
      else Inr (d\<lparr>tickets := tickets d @ [t\<lparr>ticket_id := new_rowid d\<rparr>]\<rparr>))"

text \<open>The values of the INSERT, lines 623--642 (the key \<^verbatim>\<open>id\<close> is assigned by the INSERT).\<close>

definition ticket_values ::
  "string \<Rightarrow> nat \<Rightarrow> nat \<Rightarrow> fields \<Rightarrow> string \<Rightarrow> string \<Rightarrow> string \<Rightarrow> ticket" where
  "ticket_values number year seq v created path bytes =
     \<lparr>ticket_id = 0,
      ticket_number = number,
      ticket_year = year,
      ticket_sequence = seq,
      direction = req_direction v,
      created_at = created,
      job_id = job_id_value v,
      job_code_snapshot = req_job_code v,
      job_name_snapshot = req_job_name v,
      customer_snapshot = req_customer v,
      truck_id = truck_id_value v,
      truck_number_snapshot = req_truck_number v,
      material_id = material_id_value v,
      material_name_snapshot = req_material_name v,
      quantity = quantity_num v,
      unit_label = req_unit v,
      ticket_notes = req_notes v,
      pdf_path = path,
      pdf_blob = bytes\<rparr>"

text \<open>
  Lines 585--643, on the tables of the open transaction: allocation, creation time, rendering,
  saving and the INSERT. \<open>Ok (number, path)\<close> reaches \<^verbatim>\<open>db.commit()\<close>; \<open>Return\<close> leaves the
  function with the transaction still open; \<open>Raise\<close> goes to the \<^verbatim>\<open>except\<close> clause.
\<close>

definition ticket_txn :: "env \<Rightarrow> fields \<Rightarrow> tables \<Rightarrow> (string \<times> string) flow \<times> tables" where
  "ticket_txn e v w =
     (case next_ticket_number e w of
        Inl x \<Rightarrow> (Raise x, w)
      | Inr (w1, number, year, seq) \<Rightarrow>
          (case created_at_of e v of
             Inl r \<Rightarrow> (Return r, w1)
           | Inr created \<Rightarrow>
               (case pdf_bytes_result e of
                  None \<Rightarrow> (Raise RenderError, w1)
                | Some bytes \<Rightarrow>
                    (case save_pdf e number bytes of
                       None \<Rightarrow> (Raise OSError, w1)
                     | Some path \<Rightarrow>
                         (case insert_ticket e w1
                                 (ticket_values number year seq v created path bytes) of
                            Inl x \<Rightarrow> (Raise x, w1)
                          | Inr w2 \<Rightarrow> (Ok (number, path), w2))))))"

text \<open>Lines 649--658: printing after the commit, and the final redirect.\<close>

definition after_commit :: "env \<Rightarrow> fields \<Rightarrow> string \<Rightarrow> response" where
  "after_commit e v number =
     (if auto_print v
      then (case print_error e of
              Some msg \<Rightarrow> Flash (''Ticket saved, but print failed: '' @ msg) ''error''
            | None \<Rightarrow> Flash (''Ticket '' @ number @ '' created.'') ''success'')
      else Flash (''Ticket '' @ number @ '' created.'') ''success'')"

text \<open>
  Lines 585--658 for the connection \<open>cid\<close> that holds the write lock: the body of the
  transaction, then \<^verbatim>\<open>db.commit()\<close>, or \<^verbatim>\<open>db.rollback()\<close> and re-raise in the \<^verbatim>\<open>except\<close> clause.
\<close>

definition run_txn :: "nat \<Rightarrow> env \<Rightarrow> fields \<Rightarrow> sqlite \<Rightarrow> response \<times> sqlite" where
  "run_txn cid e v s =
     (case ticket_txn e v (view cid s) of
        (Raise x, w) \<Rightarrow> (Error500 x, rollback cid s)
      | (Return r, w) \<Rightarrow> (r, s\<lparr>writer := Some (cid, w)\<rparr>)
      | (Ok (number, path), w) \<Rightarrow>
          (case commit e cid (s\<lparr>writer := Some (cid, w)\<rparr>) of
             Inl x \<Rightarrow> (Error500 x, rollback cid s)
           | Inr s' \<Rightarrow> (after_commit e v number, s')))"

text \<open>The POST branch of \<^verbatim>\<open>new_ticket\<close>, for the request served on connection \<open>cid\<close>.\<close>

definition new_ticket :: "nat \<Rightarrow> env \<Rightarrow> form \<Rightarrow> sqlite \<Rightarrow> response \<times> sqlite" where
  "new_ticket cid e form s =
     (case validate_form e form (view cid s) of
        Inl r \<Rightarrow> (r, s)
      | Inr v \<Rightarrow>
          (case begin_immediate cid s of
             Inl x \<Rightarrow> (Error500 x, rollback cid s)
           | Inr s1 \<Rightarrow> run_txn cid e v s1))"

text \<open>A whole request: the handler, then the teardown \<^verbatim>\<open>close_db\<close>.\<close>

definition new_ticket_request :: "nat \<Rightarrow> env \<Rightarrow> form \<Rightarrow> sqlite \<Rightarrow> response \<times> sqlite" where
  "new_ticket_request cid e form s =
     (case new_ticket cid e form s of (r, s') \<Rightarrow> (r, close_db cid s'))"

section \<open>Concurrent requests\<close>

text \<open>
  Requests run on connections of their own and interleave. A request that has passed
  validation executes \<^verbatim>\<open>BEGIN IMMEDIATE\<close> (\<open>acquire\<close>), which succeeds only while no other connection
  holds the write lock; the connection holding the lock then runs the rest of \<^verbatim>\<open>new_ticket\<close> and
  its teardown (\<open>finish\<close>), with any form values and any behaviour of the outside world.
  Between the two any other connection may take its own steps. \<open>other\<close> stands for the
  handlers that write the job, truck and material tables and never touch \<^verbatim>\<open>tickets\<close> or
  \<^verbatim>\<open>ticket_sequence\<close>.
\<close>

inductive step :: "sqlite \<Rightarrow> sqlite \<Rightarrow> bool" where
  acquire: "begin_immediate cid s = Inr s' \<Longrightarrow> step s s'"
| finish: "writer s = Some (cid, w) \<Longrightarrow> step s (close_db cid (snd (run_txn cid e v s)))"
| other: "writer s = None \<Longrightarrow> tickets d = tickets (committed s) \<Longrightarrow>
          sequence_table d = sequence_table (committed s) \<Longrightarrow> step s (s\<lparr>committed := d\<rparr>)"

text \<open>The states the system reaches from a database without tickets and counter rows.\<close>

inductive reachable :: "sqlite \<Rightarrow> bool" where
  init: "tickets d = [] \<Longrightarrow> sequence_table d = Map.empty \<Longrightarrow>
         reachable \<lparr>committed = d, writer = None\<rparr>"
| after: "reachable s \<Longrightarrow> step s s' \<Longrightarrow> reachable s'"

text \<open>
  The sequence values of the tickets of year \<open>y\<close>, in insertion order, and the counter of the
  year (0 when the year has no row).
\<close>

definition seqs_of :: "tables \<Rightarrow> nat \<Rightarrow> nat list" where
  "seqs_of d y = map ticket_sequence (filter (\<lambda>t. ticket_year t = y) (tickets d))"

definition last_value_of :: "tables \<Rightarrow> nat \<Rightarrow> nat" where
  "last_value_of d y = (case sequence_table d y of None \<Rightarrow> 0 | Some n \<Rightarrow> n)"

definition gapless :: "tables \<Rightarrow> nat \<Rightarrow> bool" where
  "gapless d y =
     (distinct (seqs_of d y) \<and> set (seqs_of d y) = {1..length (seqs_of d y)} \<and>
      last_value_of d y = length (seqs_of d y))"

text \<open>
  What one step may do to the committed tickets and counters: nothing, or append one ticket
  and set its year's counter to the ticket's sequence value, one more than before.
\<close>

definition atomic_change :: "tables \<Rightarrow> tables \<Rightarrow> bool" where
  "atomic_change d d' =
     ((tickets d' = tickets d \<and> sequence_table d' = sequence_table d) \<or>
      (\<exists>t. tickets d' = tickets d @ [t] \<and>
           sequence_table d' = (sequence_table d)(ticket_year t \<mapsto> ticket_sequence t) \<and>
           ticket_sequence t = last_value_of d (ticket_year t) + 1))"

text \<open>
  While a connection holds the write lock and its request has not run the transaction body,
  its transaction sees exactly the committed tables.
\<close>

definition lock_inv :: "sqlite \<Rightarrow> bool" where
  "lock_inv s = (case writer s of None \<Rightarrow> True | Some (c, w) \<Rightarrow> w = committed s)"

text \<open>The connection \<open>cid\<close> has no transaction open, as at the start of its request.\<close>

definition idle :: "nat \<Rightarrow> sqlite \<Rightarrow> bool" where
  "idle cid s = (case writer s of None \<Rightarrow> True | Some (c, w) \<Rightarrow> c \<noteq> cid)"

section \<open>Reports\<close>

text \<open>
  The conditions the three report handlers append to \<^verbatim>\<open>where\<close>, with their parameter, and
  their meaning on a row of \<^verbatim>\<open>tickets\<close>. A comparison with NULL (an unparseable date, a
  ticket without job or material reference) is not true.
\<close>

datatype cond =
    Date_from string
  | Date_to string
  | Direction_is string
  | Job_is string
  | Material_is string

fun holds :: "env \<Rightarrow> cond \<Rightarrow> ticket \<Rightarrow> bool" where
  "holds e (Date_from p) t =
     (case sql_date e (created_at t) of
        None \<Rightarrow> False
      | Some a \<Rightarrow> (case sql_date e p of None \<Rightarrow> False | Some b \<Rightarrow> b \<le> a))"
| "holds e (Date_to p) t =
     (case sql_date e (created_at t) of
        None \<Rightarrow> False
      | Some a \<Rightarrow> (case sql_date e p of None \<Rightarrow> False | Some b \<Rightarrow> a \<le> b))"
| "holds e (Direction_is p) t = (direction t = p)"
| "holds e (Job_is p) t =
     (case job_id t of None \<Rightarrow> False | Some i \<Rightarrow> sql_int e p = Some i)"
| "holds e (Material_is p) t =
     (case material_id t of None \<Rightarrow> False | Some i \<Rightarrow> sql_int e p = Some i)"

text \<open>Lines 731--748, 831--848 and 967--988: the same five tests in the three handlers.\<close>

definition build_where :: "string \<Rightarrow> string \<Rightarrow> string \<Rightarrow> string \<Rightarrow> string \<Rightarrow> cond list" where
  "build_where date_from date_to dir jid mid =
     (if date_from \<noteq> [] then [Date_from date_from] else []) @
     (if date_to \<noteq> [] then [Date_to date_to] else []) @
     (if dir = ''IN'' \<or> dir = ''OUT'' then [Direction_is dir] else []) @
     (if jid \<noteq> [] then [Job_is jid] else []) @
     (if mid \<noteq> [] then [Material_is mid] else [])"

text \<open>\<^verbatim>\<open>FROM tickets t WHERE {where_sql}\<close>: the rows satisfying every condition.\<close>

definition select_where :: "env \<Rightarrow> cond list \<Rightarrow> tables \<Rightarrow> ticket list" where
  "select_where e wh d = filter (\<lambda>t. list_all (\<lambda>c. holds e c t) wh) (tickets d)"

text \<open>
  The two aggregate queries: one row per group, in the order of the group key, with the
  \<^verbatim>\<open>SUM\<close> that SQLite computes over the quantities of the group.
\<close>

definition totals_by_unit :: "env \<Rightarrow> ticket list \<Rightarrow> (string \<times> rat) list" where
  "totals_by_unit e rows =
     map (\<lambda>u. (u, sql_sum e (map quantity (filter (\<lambda>t. unit_label t = u) rows))))
         (sort (remdups (map unit_label rows)))"

definition totals_by_material :: "env \<Rightarrow> ticket list \<Rightarrow> (string \<times> string \<times> rat) list" where
  "totals_by_material e rows =
     map (\<lambda>k. (fst k, snd k,
               sql_sum e (map quantity
                 (filter (\<lambda>t. (material_name_snapshot t, unit_label t) = k) rows))))
         (sort (remdups (map (\<lambda>t. (material_name_snapshot t, unit_label t)) rows)))"

text \<open>
  The \<^verbatim>\<open>ORDER BY\<close> of \<^verbatim>\<open>reports\<close>: customer ascending, then the \<^verbatim>\<open>CASE\<close> on the direction, then
  \<^verbatim>\<open>id DESC\<close>.
\<close>

definition direction_rank :: "string \<Rightarrow> nat" where
  "direction_rank dir = (if dir = ''IN'' then 1 else if dir = ''OUT'' then 2 else 3)"

definition report_key :: "ticket \<Rightarrow> string \<times> nat \<times> int" where
  "report_key t = (customer_snapshot t, direction_rank (direction t), - int (ticket_id t))"

text \<open>
  Lines 721--729 and 731--750 of \<^verbatim>\<open>reports\<close>: the conditions of a request, with the default
  window when neither date is given.
\<close>

definition report_where :: "env \<Rightarrow> form \<Rightarrow> cond list" where
  "report_where e args =
     (let date_from = strip (form_get args ''date_from'' []);
          date_to = strip (form_get args ''date_to'' []);
          dir = upper (strip (form_get args ''direction'' []));
          jid = strip (form_get args ''job_id'' []);
          mid = strip (form_get args ''material_id'' [])
      in if date_from = [] \<and> date_to = []
         then build_where (today_minus_14 e) (today e) dir jid mid
         else build_where date_from date_to dir jid mid)"

text \<open>\<^verbatim>\<open>int(request.args.get("offset", 0))\<close>; \<open>None\<close> is the \<^verbatim>\<open>ValueError\<close>.\<close>

definition report_offset :: "env \<Rightarrow> form \<Rightarrow> int option" where
  "report_offset e args = (case args ''offset'' of None \<Rightarrow> Some 0 | Some s \<Rightarrow> to_int e s)"

text \<open>
  \<^verbatim>\<open>reports\<close>: the page of at most 20 tickets from the offset (SQLite reads a negative
  \<^verbatim>\<open>OFFSET\<close> as 0) and the two tables of totals handed to the template.
\<close>

definition reports ::
  "env \<Rightarrow> form \<Rightarrow> tables \<Rightarrow>
     exn + (ticket list \<times> (string \<times> rat) list \<times> (string \<times> string \<times> rat) list)" where
  "reports e args d =
     (case report_offset e args of
        None \<Rightarrow> Inl ValueError
      | Some offset \<Rightarrow>
          (let rows = select_where e (report_where e args) d
           in Inr (take 20 (drop (nat offset) (sort_key report_key rows)),
                   totals_by_unit e rows, totals_by_material e rows)))"

text \<open>
  \<^verbatim>\<open>export_reports_csv\<close>, lines 825--893: the rows and totals that are written to the CSV file
  (\<^verbatim>\<open>ORDER BY t.id DESC LIMIT 1000\<close>).
\<close>

definition export_where :: "form \<Rightarrow> cond list" where
  "export_where args =
     build_where (strip (form_get args ''date_from'' [])) (strip (form_get args ''date_to'' []))
       (upper (strip (form_get args ''direction'' [])))
       (strip (form_get args ''job_id'' [])) (strip (form_get args ''material_id'' []))"

definition export_reports_csv ::
  "env \<Rightarrow> form \<Rightarrow> tables \<Rightarrow>
     ticket list \<times> (string \<times> rat) list \<times> (string \<times> string \<times> rat) list" where
  "export_reports_csv e args d =
     (let rows = select_where e (export_where args) d
      in (take 1000 (sort_key (\<lambda>t. - int (ticket_id t)) rows),
          totals_by_unit e rows, totals_by_material e rows))"

text \<open>
  \<^verbatim>\<open>print_reports\<close>, lines 961--1026: the arguments are used as sent; the \<^verbatim>\<open>CASE\<close> has no
  \<^verbatim>\<open>ELSE\<close>, so any other direction gives NULL, which SQLite orders first; there is no limit.
  The aggregate queries have no \<^verbatim>\<open>ORDER BY\<close>; the groups are listed in key order.
\<close>

definition print_where :: "form \<Rightarrow> cond list" where
  "print_where args =
     build_where (form_get args ''date_from'' []) (form_get args ''date_to'' [])
       (form_get args ''direction'' []) (form_get args ''job_id'' [])
       (form_get args ''material_id'' [])"

definition print_rank :: "string \<Rightarrow> nat" where
  "print_rank dir = (if dir = ''IN'' then 1 else if dir = ''OUT'' then 2 else 0)"

definition print_reports ::
  "env \<Rightarrow> form \<Rightarrow> tables \<Rightarrow>
     ticket list \<times> (string \<times> rat) list \<times> (string \<times> string \<times> rat) list" where
  "print_reports e args d =
     (let rows = select_where e (print_where args) d
      in (sort_key (\<lambda>t. (customer_snapshot t, print_rank (direction t), - int (ticket_id t))) rows,
          totals_by_unit e rows, totals_by_material e rows))"

text \<open>
  The order the specification asks of two tickets that follow one another on the report page.
\<close>

definition report_before :: "ticket \<Rightarrow> ticket \<Rightarrow> bool" where
  "report_before a b =
     (customer_snapshot a < customer_snapshot b \<or>
      (customer_snapshot a = customer_snapshot b \<and>
       (direction_rank (direction a) < direction_rank (direction b) \<or>
        (direction_rank (direction a) = direction_rank (direction b) \<and>
         ticket_id b \<le> ticket_id a))))"

section \<open>Synchronising the jobs cache\<close>

text \<open>
  The source of a synchronisation. \<open>csv_file\<close> is the file found by \<^verbatim>\<open>resolve_jobs_csv_path\<close> as
  \<^verbatim>\<open>csv.DictReader\<close> reads it: the header (\<^verbatim>\<open>reader.fieldnames\<close>, empty when the file has none)
  and one dictionary per line. \<open>odbc_conn\<close> tells whether
  \<^verbatim>\<open>REMOTE_SQL_ODBC_CONNECTION_STRING\<close> is set and \<open>odbc_rows\<close> is the result of the remote
  query, \<open>None\<close> when connecting or querying raises.
\<close>

record odbc_row =
  o_job_code :: string
  o_job_name :: "string option"
  o_customer :: "string option"
  o_active :: "int option"
  o_source_updated_at :: "string option"

record jobs_source =
  csv_file :: "(string list \<times> (string \<rightharpoonup> string) list) option"
  odbc_conn :: bool
  odbc_rows :: "odbc_row list option"

definition join :: "string \<Rightarrow> string list \<Rightarrow> string" where
  "join sep xs = (case xs of [] \<Rightarrow> [] | y # ys \<Rightarrow> foldl (\<lambda>acc x. acc @ sep @ x) y ys)"

text \<open>The inner function \<^verbatim>\<open>first_present\<close>.\<close>

definition first_present :: "string list \<Rightarrow> string list \<Rightarrow> string option" where
  "first_present names fieldnames = find (\<lambda>n. n \<in> set fieldnames) names"

text \<open>\<^verbatim>\<open>str(row.get(col) or "").strip()\<close>.\<close>

definition row_text :: "(string \<rightharpoonup> string) \<Rightarrow> string \<Rightarrow> string" where
  "row_text row col = strip (case row col of None \<Rightarrow> [] | Some v \<Rightarrow> v)"

definition new_job_id :: "tables \<Rightarrow> int" where
  "new_job_id d = fold max (map jc_id (jobs_cache d)) 0 + 1"

text \<open>\<^verbatim>\<open>upsert_job_cache_row\<close>: \<^verbatim>\<open>INSERT ... ON CONFLICT(job_code) DO UPDATE\<close>.\<close>

definition upsert_job_cache_row ::
  "tables \<Rightarrow> string \<Rightarrow> string \<Rightarrow> string \<Rightarrow> int \<Rightarrow> string option \<Rightarrow> string \<Rightarrow> tables" where
  "upsert_job_cache_row d code name cust act updated refreshed =
     (if code \<in> set (map job_code (jobs_cache d))
      then d\<lparr>jobs_cache :=
               map (\<lambda>j. if job_code j = code
                         then j\<lparr>job_name := name, customer := cust, active := act,
                                source_updated_at := updated, refreshed_at := refreshed\<rparr>
                         else j) (jobs_cache d)\<rparr>
      else d\<lparr>jobs_cache := jobs_cache d @
               [\<lparr>jc_id = new_job_id d, job_code = code, job_name = name, customer = cust,
                 active = act, source_updated_at = updated, refreshed_at = refreshed\<rparr>]\<rparr>)"

text \<open>
  Lines 406--434: one line of the CSV file, with the columns found in the header. The result
  is the tables and the number of rows synced so far.
\<close>

definition sync_csv_row ::
  "env \<Rightarrow> string \<Rightarrow> string \<Rightarrow> string option \<Rightarrow> string option \<Rightarrow> string option \<Rightarrow>
     (string \<rightharpoonup> string) \<Rightarrow> tables \<times> nat \<Rightarrow> tables \<times> nat" where
  "sync_csv_row e code_col name_col customer_col active_col updated_col row acc =
     (let code = row_text row code_col
      in if code = [] then acc
         else
           (let name = row_text row name_col;
                cust = (case customer_col of None \<Rightarrow> [] | Some c \<Rightarrow> row_text row c);
                active_raw = (case active_col of None \<Rightarrow> [] | Some c \<Rightarrow> row_text row c);
                act = (if active_col = Some ''Job Status''
                       then (if upper active_raw = ''A'' then 1 else 0)
                       else if active_raw = [] then 1
                       else (case to_int e active_raw of None \<Rightarrow> 1 | Some n \<Rightarrow> n));
                updated = (case updated_col of
                             None \<Rightarrow> None
                           | Some c \<Rightarrow> (let u = row_text row c in if u = [] then None else Some u))
            in (upsert_job_cache_row (fst acc) code name cust act updated (now_iso e),
                snd acc + 1)))"

text \<open>Lines 463--480: one row of the remote query.\<close>

definition sync_odbc_row :: "env \<Rightarrow> odbc_row \<Rightarrow> tables \<Rightarrow> tables" where
  "sync_odbc_row e r d =
     upsert_job_cache_row d (strip (o_job_code r))
       (case o_job_name r of None \<Rightarrow> [] | Some n \<Rightarrow> strip n)
       (case o_customer r of None \<Rightarrow> [] | Some c \<Rightarrow> strip c)
       (case o_active r of None \<Rightarrow> 1 | Some a \<Rightarrow> a)
       (o_source_updated_at r) (now_iso e)"

text \<open>
  \<^verbatim>\<open>refresh_jobs_cache(db)\<close> on the tables the connection sees: the exception or the number of
  rows synced, and the tables as the call leaves them.
\<close>

definition refresh_jobs_cache :: "env \<Rightarrow> jobs_source \<Rightarrow> tables \<Rightarrow> (exn + nat) \<times> tables" where
  "refresh_jobs_cache e src d =
     (case csv_file src of
        Some (fieldnames, rows) \<Rightarrow>
          if fieldnames = [] then (Inl (RuntimeError ''CSV is missing a header row.''), d)
          else
            (let job_code_col =
                   first_present [''job_code'', ''Job #'', ''Job#'', ''Job Number''] fieldnames;
                 job_name_col = first_present [''job_name'', ''Job Name''] fieldnames;
                 customer_col = first_present [''customer'', ''Customer Name''] fieldnames;
                 active_col = first_present [''active'', ''Job Status''] fieldnames;
                 source_updated_at_col = first_present [''source_updated_at''] fieldnames;
                 missing =
                   (if job_code_col = None then [''job_code or Job #''] else []) @
                   (if job_name_col = None then [''job_name or Job Name''] else [])
             in case (job_code_col, job_name_col) of
                  (Some code_col, Some name_col) \<Rightarrow>
                    (let r = fold (sync_csv_row e code_col name_col customer_col active_col
                                     source_updated_at_col) rows (d, 0)
                     in (Inr (snd r), fst r))
                | _ \<Rightarrow>
                    (Inl (RuntimeError
                            (''CSV missing required columns: '' @ join '', '' missing)), d))
      | None \<Rightarrow>
          if \<not> odbc_conn src
          then (Inl (RuntimeError
                      (''No jobs source found. Set JOBS_CSV_PATH, place CSV at data/jobs.csv, '' @
                       ''or configure REMOTE_SQL_ODBC_CONNECTION_STRING.'')), d)
          else (case odbc_rows src of
                  None \<Rightarrow> (Inl OperationalError, d)
                | Some rows \<Rightarrow> (Inr (length rows), fold (sync_odbc_row e) rows d)))"

section \<open>Example requests\<close>

text \<open>
  A clock reading of 4 November 2026, library functions that know the inputs of the examples,
  and an outside world in which nothing fails. The quantities of the examples that use this
  world are whole numbers below 100, whose sums in double precision are exact.
\<close>

definition ex_env :: env where
  "ex_env =
     \<lparr>now_year = 2026,
      now_iso = ''2026-11-04T10:00:00'',
      today = ''2026-11-04'',
      today_minus_14 = ''2026-10-21'',
      to_float = (\<lambda>s. if s = ''12.5'' then Some (25 / 2) else if s = ''1'' then Some 1 else None),
      to_int = (\<lambda>s. if s = ''0'' then Some 0 else if s = ''1'' then Some 1 else None),
      fromisoformat =
        (\<lambda>s. if s = ''2020-01-02T03:04'' then Some ''2020-01-02T03:04:00'' else None),
      sql_int = (\<lambda>s. None),
      sql_date = (\<lambda>s. if length s < 10 then None else Some (take 10 s)),
      sql_sum = sum_list,
      pdf_bytes_result = Some ''%PDF-1.4'',
      pdf_dir = ''tickets_pdf'',
      save_pdf_ok = True,
      insert_error = False,
      commit_error = False,
      print_error = None\<rparr>"

text \<open>The scenario of the specification, with the box "use current time" ticked.\<close>

definition ex_form :: form where
  "ex_form =
     [''direction'' \<mapsto> ''IN'', ''job_entry'' \<mapsto> ''J100 - Main St'', ''truck_entry'' \<mapsto> ''T12'',
      ''material_entry'' \<mapsto> ''Gravel'', ''quantity'' \<mapsto> ''12.5'', ''unit'' \<mapsto> ''Ton'',
      ''use_now'' \<mapsto> ''on'']"

definition ex_empty :: tables where
  "ex_empty =
     \<lparr>sequence_table = Map.empty, tickets = [], jobs_cache = [], trucks = [], materials = []\<rparr>"

definition ex_db :: sqlite where
  "ex_db = \<lparr>committed = ex_empty, writer = None\<rparr>"

text \<open>
  Two requests for the same year. The first connection takes the write lock and creates its
  ticket; the second, which could not begin meanwhile, does the same afterwards.
\<close>

definition ex_fields :: fields where
  "ex_fields =
     \<lparr>req_direction = ''IN'', job_id_value = None, req_job_code = ''J100'',
      req_job_name = ''Main St'', req_customer = [], truck_id_value = None,
      req_truck_number = ''T12'', material_id_value = None, req_material_name = ''Gravel'',
      quantity_num = 25 / 2, req_unit = ''Ton'', req_notes = [], auto_print = False,
      use_now = True, custom_datetime = None\<rparr>"

definition ex_locked :: sqlite where
  "ex_locked = \<lparr>committed = ex_empty, writer = Some (1, ex_empty)\<rparr>"

definition ex_one :: sqlite where
  "ex_one = close_db 1 (snd (run_txn 1 ex_env ex_fields ex_locked))"

definition ex_locked2 :: sqlite where
  "ex_locked2 = ex_one\<lparr>writer := Some (2, committed ex_one)\<rparr>"

definition ex_two :: sqlite where
  "ex_two = close_db 2 (snd (run_txn 2 ex_env ex_fields ex_locked2))"

text \<open>The same world with a PDF library that raises.\<close>

definition ex_env_nopdf :: env where
  "ex_env_nopdf = ex_env\<lparr>pdf_bytes_result := None\<rparr>"

text \<open>The scenario with a creation time of the year 2020 entered by hand.\<close>

definition ex_form_custom :: form where
  "ex_form_custom =
     [''direction'' \<mapsto> ''IN'', ''job_entry'' \<mapsto> ''J100 - Main St'', ''truck_entry'' \<mapsto> ''T12'',
      ''material_entry'' \<mapsto> ''Gravel'', ''quantity'' \<mapsto> ''12.5'', ''unit'' \<mapsto> ''Ton'',
      ''custom_datetime'' \<mapsto> ''2020-01-02T03:04'']"

text \<open>The scenario with neither "use current time" nor a creation time.\<close>

definition ex_form_no_time :: form where
  "ex_form_no_time =
     [''direction'' \<mapsto> ''IN'', ''job_entry'' \<mapsto> ''J100 - Main St'', ''truck_entry'' \<mapsto> ''T12'',
      ''material_entry'' \<mapsto> ''Gravel'', ''quantity'' \<mapsto> ''12.5'', ''unit'' \<mapsto> ''Ton'']"

text \<open>The scenario with an empty quantity field and no unit field.\<close>

definition ex_form_no_quantity :: form where
  "ex_form_no_quantity =
     [''direction'' \<mapsto> ''IN'', ''job_entry'' \<mapsto> ''J100 - Main St'', ''truck_entry'' \<mapsto> ''T12'',
      ''material_entry'' \<mapsto> ''Gravel'', ''quantity'' \<mapsto> [], ''use_now'' \<mapsto> ''on'']"

text \<open>The scenario without a truck.\<close>

definition ex_form_no_truck :: form where
  "ex_form_no_truck =
     [''direction'' \<mapsto> ''IN'', ''job_entry'' \<mapsto> ''J100 - Main St'', ''truck_entry'' \<mapsto> ''  '',
      ''material_entry'' \<mapsto> ''Gravel'', ''quantity'' \<mapsto> ''12.5'', ''unit'' \<mapsto> ''Ton'',
      ''use_now'' \<mapsto> ''on'']"

text \<open>The scenario with a job text without separator.\<close>

definition ex_form_plain :: form where
  "ex_form_plain =
     [''direction'' \<mapsto> ''IN'', ''job_entry'' \<mapsto> ''Yard'', ''truck_entry'' \<mapsto> ''T12'',
      ''material_entry'' \<mapsto> ''Gravel'', ''quantity'' \<mapsto> ''12.5'', ''unit'' \<mapsto> ''Ton'',
      ''use_now'' \<mapsto> ''on'']"

text \<open>
  Four stored tickets: three of the last days before 4 November 2026 and one of January.
\<close>

definition ex_ticket ::
  "nat \<Rightarrow> string \<Rightarrow> string \<Rightarrow> string \<Rightarrow> rat \<Rightarrow> string \<Rightarrow> string \<Rightarrow> ticket" where
  "ex_ticket i cust dir mat q u created =
     \<lparr>ticket_id = i, ticket_number = ''DT-2026-'' @ zfill 6 (str_nat i), ticket_year = 2026,
      ticket_sequence = i, direction = dir, created_at = created, job_id = None,
      job_code_snapshot = ''J100'', job_name_snapshot = ''Main St'', customer_snapshot = cust,
      truck_id = None, truck_number_snapshot = ''T12'', material_id = None,
      material_name_snapshot = mat, quantity = q, unit_label = u, ticket_notes = [],
      pdf_path = [], pdf_blob = []\<rparr>"

definition ex_report_db :: tables where
  "ex_report_db =
     \<lparr>sequence_table = [2026 \<mapsto> 4],
      tickets =
        [ex_ticket 1 ''Zed'' ''IN'' ''Gravel'' 7 ''Ton'' ''2026-01-05T08:00:00'',
         ex_ticket 2 ''Acme'' ''OUT'' ''Gravel'' 5 ''Ton'' ''2026-11-01T09:00:00'',
         ex_ticket 3 ''Acme'' ''IN'' ''Sand'' 3 ''Ton'' ''2026-11-02T09:00:00'',
         ex_ticket 4 ''Acme'' ''IN'' ''Gravel'' 2 ''Load'' ''2026-11-03T09:00:00''],
      jobs_cache = [], trucks = [], materials = []\<rparr>"

text \<open>
  A jobs file whose header has a name column and no code column under any alias, and one
  with both.
\<close>

definition ex_csv_no_code :: jobs_source where
  "ex_csv_no_code =
     \<lparr>csv_file = Some ([''Job Name'', ''Customer Name''],
                       [[''Job Name'' \<mapsto> ''Main St'', ''Customer Name'' \<mapsto> ''Acme'']]),
      odbc_conn = False, odbc_rows = None\<rparr>"

definition ex_csv :: jobs_source where
  "ex_csv =
     \<lparr>csv_file = Some ([''Job #'', ''Job Name'', ''Job Status''],
                       [[''Job #'' \<mapsto> ''J100'', ''Job Name'' \<mapsto> ''Main St'', ''Job Status'' \<mapsto> ''A''],
                        [''Job #'' \<mapsto> '' '', ''Job Name'' \<mapsto> ''Skipped'', ''Job Status'' \<mapsto> ''A'']]),
      odbc_conn = False, odbc_rows = None\<rparr>"

text \<open>
  Three stored tickets with the quantities 0.3, 0.2 and 0.1 as doubles: the doubles nearest to
  these decimals are \<open>5404319552844595 / 2 ^ 54\<close>, \<open>3602879701896397 / 2 ^ 54\<close> and
  \<open>3602879701896397 / 2 ^ 55\<close>. In double precision \<open>0.2 + 0.1\<close> is 0.30000000000000004
  (\<open>1351079888211149 / 2 ^ 52\<close>), \<open>0.3 + 0.2 + 0.1\<close> is 0.6 (\<open>5404319552844595 / 2 ^ 53\<close>)
  and \<open>0.3 + 0.30000000000000004\<close> is 0.6000000000000001 (\<open>1351079888211149 / 2 ^ 51\<close>);
  \<open>ex_env_float\<close> is the example world with these three sums.
\<close>

definition ex_float_db :: tables where
  "ex_float_db =
     \<lparr>sequence_table = [2026 \<mapsto> 3],
      tickets =
        [ex_ticket 1 ''Acme'' ''IN'' ''Gravel'' (5404319552844595 / 18014398509481984) ''Load''
           ''2026-11-01T09:00:00'',
         ex_ticket 2 ''Acme'' ''IN'' ''Gravel'' (3602879701896397 / 18014398509481984) ''Ton''
           ''2026-11-02T09:00:00'',
         ex_ticket 3 ''Acme'' ''IN'' ''Gravel'' (3602879701896397 / 36028797018963968) ''Ton''
           ''2026-11-03T09:00:00''],
      jobs_cache = [], trucks = [], materials = []\<rparr>"

definition ex_env_float :: env where
  "ex_env_float =
     ex_env\<lparr>sql_sum :=
       (\<lambda>qs. if qs = [3602879701896397 / 18014398509481984,
                        3602879701896397 / 36028797018963968]
              then 1351079888211149 / 4503599627370496
              else if qs = [5404319552844595 / 18014398509481984,
                            3602879701896397 / 18014398509481984,
                            3602879701896397 / 36028797018963968]
              then 5404319552844595 / 9007199254740992
              else if qs = [5404319552844595 / 18014398509481984,
                            1351079888211149 / 4503599627370496]
              then 1351079888211149 / 2251799813685248
              else sum_list qs)\<rparr>"

section \<open>Evaluation\<close>

text \<open>Equations for evaluating the definitions on the examples.\<close>

lemma replicate_numeral: "replicate (numeral k) x = x # replicate (pred_numeral k) x"
  by (simp add: numeral_eq_Suc)

lemma str_nat_examples:
  "str_nat 1 = ''1''" "str_nat 2 = ''2''" "str_nat 2026 = ''2026''"
  "str_nat (Suc 0) = ''1''" "str_nat (Suc (Suc 0)) = ''2''"
  by (simp_all add: str_nat.simps digit_char_def)

lemmas string_eval =
  strip_def isspace_def upper_def upper_char_def zfill_def str_nat_examples
  replicate_numeral form_get_def form_get_or_def

lemmas txn_eval =
  new_ticket_def new_ticket_request_def validate_form_def job_snapshot_def select_job_def
  select_truck_def select_material_def begin_immediate_def run_txn_def ticket_txn_def view_def
  next_ticket_number_def created_at_of_def save_pdf_def insert_ticket_def new_rowid_def
  ticket_values_def commit_def close_db_def rollback_def after_commit_def Let_def

lemmas ex_eval =
  ex_env_def ex_form_def ex_empty_def ex_db_def ex_fields_def ex_locked_def ex_one_def
  ex_locked2_def ex_two_def ex_env_nopdf_def ex_form_custom_def ex_form_no_time_def
  ex_form_no_quantity_def ex_form_no_truck_def ex_form_plain_def

lemmas report_eval =
  reports_def report_offset_def report_where_def export_reports_csv_def export_where_def
  print_reports_def print_where_def build_where_def select_where_def totals_by_unit_def
  totals_by_material_def report_key_def direction_rank_def print_rank_def
  ex_report_db_def ex_ticket_def ex_float_db_def

section \<open>The transaction of ticket creation\<close>

lemma next_ticket_number_eq:
  "next_ticket_number e d =
     Inr (d\<lparr>sequence_table :=
               (sequence_table d)(now_year e \<mapsto> last_value_of d (now_year e) + 1)\<rparr>,
          ''DT-'' @ str_nat (now_year e) @ ''-'' @
            zfill 6 (str_nat (last_value_of d (now_year e) + 1)),
          now_year e, last_value_of d (now_year e) + 1)"
  by (cases "sequence_table d (now_year e)")
     (simp_all add: next_ticket_number_def last_value_of_def Let_def)

text \<open>The body of the transaction reaches the commit only with a ticket appended.\<close>

lemma ticket_txn_Ok:
  assumes "ticket_txn e v w = (Ok p, w')"
  shows "\<exists>created bytes number path.
           created_at_of e v = Inr created \<and> pdf_bytes_result e = Some bytes \<and>
           save_pdf_ok e \<and> \<not> insert_error e \<and>
           number = ''DT-'' @ str_nat (now_year e) @ ''-'' @
                    zfill 6 (str_nat (last_value_of w (now_year e) + 1)) \<and>
           p = (number, path) \<and>
           w' = w\<lparr>sequence_table :=
                     (sequence_table w)(now_year e \<mapsto> last_value_of w (now_year e) + 1),
                   tickets := tickets w @
                     [(ticket_values number (now_year e) (last_value_of w (now_year e) + 1)
                         v created path bytes)\<lparr>ticket_id := new_rowid w\<rparr>]\<rparr>"
  using assms
  by (auto simp: ticket_txn_def next_ticket_number_eq insert_ticket_def save_pdf_def new_rowid_def
           split: sum.splits option.splits if_splits)

text \<open>It is left by \<^verbatim>\<open>return\<close> only for the creation time, with the counter already raised.\<close>

lemma ticket_txn_Return:
  assumes "ticket_txn e v w = (Return r, w')"
  shows "(r = Flash ''Please select a valid date and time.'' ''error'' \<or>
          r = Flash ''Invalid date format.'' ''error'') \<and>
         created_at_of e v = Inl r \<and>
         w' = w\<lparr>sequence_table :=
                   (sequence_table w)(now_year e \<mapsto> last_value_of w (now_year e) + 1)\<rparr>"
  using assms
  by (auto simp: ticket_txn_def next_ticket_number_eq insert_ticket_def created_at_of_def
           split: sum.splits option.splits if_splits)

lemma idle_view: "idle cid s \<Longrightarrow> view cid s = committed s"
  by (auto simp: idle_def view_def split: option.splits)

lemma idle_rollback: "idle cid s \<Longrightarrow> rollback cid s = s"
  by (auto simp: idle_def rollback_def split: option.splits)

lemma run_txn_outcome:
  assumes "writer s = Some (cid, w)" and "run_txn cid e v s = (r, s')"
  shows "(committed s' = committed s \<and> close_db cid s' = s\<lparr>writer := None\<rparr> \<and>
          (\<forall>x. r = Error500 x \<longrightarrow> s' = s\<lparr>writer := None\<rparr>)) \<or>
         (\<exists>p. ticket_txn e v w = (Ok p, committed s') \<and> \<not> commit_error e \<and>
               writer s' = None \<and> r = after_commit e v (fst p))"
proof -
  obtain fl w' where t: "ticket_txn e v w = (fl, w')" by fastforce
  have vw: "view cid s = w" using assms(1) by (simp add: view_def)
  show ?thesis
  proof (cases fl)
    case (Ok p)
    with t vw assms show ?thesis
      by (cases p; cases "commit_error e")
         (auto simp: run_txn_def commit_def rollback_def close_db_def)
  next
    case (Return x)
    with t vw assms ticket_txn_Return [of e v w x w'] show ?thesis
      by (auto simp: run_txn_def rollback_def close_db_def)
  next
    case (Raise x)
    with t vw assms show ?thesis
      by (auto simp: run_txn_def rollback_def close_db_def)
  qed
qed

text \<open>
  A request either leaves the committed tables as they were, and the database as it found it
  once its connection is closed, or it has committed the transaction body.
\<close>

lemma new_ticket_outcome:
  assumes "idle cid s" and "new_ticket cid e form s = (r, s')"
  shows "(committed s' = committed s \<and> close_db cid s' = s \<and>
          (\<forall>x. r = Error500 x \<longrightarrow> s' = s)) \<or>
         (\<exists>v p. validate_form e form (committed s) = Inr v \<and> writer s = None \<and>
                ticket_txn e v (committed s) = (Ok p, committed s') \<and> \<not> commit_error e \<and>
                writer s' = None \<and> r = after_commit e v (fst p))"
proof (cases "validate_form e form (committed s)")
  case (Inl x)
  with assms show ?thesis
    by (auto simp: new_ticket_def idle_view close_db_def idle_rollback)
next
  case (Inr v)
  show ?thesis
  proof (cases "writer s")
    case None
    let ?s1 = "s\<lparr>writer := Some (cid, committed s)\<rparr>"
    from None Inr assms have run: "run_txn cid e v ?s1 = (r, s')"
      by (simp add: new_ticket_def idle_view begin_immediate_def)
    have w1: "writer ?s1 = Some (cid, committed s)" by simp
    have undo: "?s1\<lparr>writer := None\<rparr> = s" using None by simp
    from run_txn_outcome [OF w1 run] undo None Inr show ?thesis by auto
  next
    case (Some a)
    with Inr assms show ?thesis
      by (auto simp: new_ticket_def idle_view begin_immediate_def close_db_def idle_rollback)
  qed
qed

text \<open>A request served while no connection holds the lock is no step or two steps.\<close>

lemma new_ticket_request_steps:
  assumes "writer s = None" and "new_ticket_request cid e form s = (r, s')"
  shows "s' = s \<or> (\<exists>s1. step s s1 \<and> step s1 s')"
proof (cases "validate_form e form (committed s)")
  case (Inl x)
  with assms show ?thesis
    by (auto simp: new_ticket_request_def new_ticket_def view_def close_db_def rollback_def)
next
  case (Inr v)
  let ?s1 = "s\<lparr>writer := Some (cid, committed s)\<rparr>"
  from assms(1) have b: "begin_immediate cid s = Inr ?s1" by (simp add: begin_immediate_def)
  then have one: "step s ?s1" by (rule step.acquire)
  have "writer ?s1 = Some (cid, committed s)" by simp
  then have two: "step ?s1 (close_db cid (snd (run_txn cid e v ?s1)))" by (rule step.finish)
  from assms Inr b have "s' = close_db cid (snd (run_txn cid e v ?s1))"
    by (auto simp: new_ticket_request_def new_ticket_def view_def split: prod.splits)
  with one two show ?thesis by blast
qed

section \<open>Gapless sequences\<close>

lemma ticket_txn_atomic:
  assumes "ticket_txn e v w = (Ok p, w')"
  shows "atomic_change w w'"
  using ticket_txn_Ok [OF assms]
  by (auto simp: atomic_change_def ticket_values_def)

lemma gapless_atomic_change:
  assumes "atomic_change d d'" and "\<And>y. gapless d y"
  shows "gapless d' y"
proof -
  from assms(1) consider
    (same) "tickets d' = tickets d" "sequence_table d' = sequence_table d"
  | (add) t where "tickets d' = tickets d @ [t]"
      "sequence_table d' = (sequence_table d)(ticket_year t \<mapsto> ticket_sequence t)"
      "ticket_sequence t = last_value_of d (ticket_year t) + 1"
    by (auto simp: atomic_change_def)
  then show ?thesis
  proof cases
    case same
    with assms(2) [of y] show ?thesis
      by (simp add: gapless_def seqs_of_def last_value_of_def)
  next
    case add
    have g: "gapless d y" by (rule assms(2))
    show ?thesis
    proof (cases "ticket_year t = y")
      case True
      have s: "seqs_of d' y = seqs_of d y @ [length (seqs_of d y) + 1]"
        using add True g by (simp add: seqs_of_def gapless_def)
      have l: "last_value_of d' y = length (seqs_of d y) + 1"
        using add True g by (simp add: last_value_of_def gapless_def seqs_of_def)
      from g have "distinct (seqs_of d y)" "set (seqs_of d y) = {1..length (seqs_of d y)}"
        by (simp_all add: gapless_def)
      then show ?thesis unfolding gapless_def s l
        by (auto simp: atLeastAtMostSuc_conv)
    next
      case False
      with add g show ?thesis
        by (simp add: gapless_def seqs_of_def last_value_of_def)
    qed
  qed
qed

lemma finish_atomic:
  assumes "writer s = Some (cid, committed s)"
  shows "atomic_change (committed s) (committed (close_db cid (snd (run_txn cid e v s)))) \<and>
         writer (close_db cid (snd (run_txn cid e v s))) = None"
proof -
  obtain r s' where run: "run_txn cid e v s = (r, s')" by fastforce
  from run_txn_outcome [OF assms run] show ?thesis
  proof
    assume "committed s' = committed s \<and> close_db cid s' = s\<lparr>writer := None\<rparr> \<and>
            (\<forall>x. r = Error500 x \<longrightarrow> s' = s\<lparr>writer := None\<rparr>)"
    with run show ?thesis by (simp add: atomic_change_def)
  next
    assume "\<exists>p. ticket_txn e v (committed s) = (Ok p, committed s') \<and> \<not> commit_error e \<and>
                writer s' = None \<and> r = after_commit e v (fst p)"
    then obtain p where "ticket_txn e v (committed s) = (Ok p, committed s')"
      and "writer s' = None" by blast
    with run ticket_txn_atomic show ?thesis
      by (auto simp: close_db_def rollback_def)
  qed
qed

lemma step_atomic:
  assumes "step s s'" and "lock_inv s"
  shows "atomic_change (committed s) (committed s') \<and> lock_inv s'"
  using assms
proof cases
  case (acquire cid)
  then show ?thesis
    by (auto simp: begin_immediate_def atomic_change_def lock_inv_def split: option.splits)
next
  case (finish cid w e v)
  with assms(2) have "writer s = Some (cid, committed s)" by (simp add: lock_inv_def)
  from finish_atomic [OF this, of e v] finish show ?thesis by (simp add: lock_inv_def)
next
  case (other d)
  then show ?thesis by (simp add: atomic_change_def lock_inv_def)
qed

lemma reachable_inv: "reachable s \<Longrightarrow> lock_inv s \<and> (\<forall>y. gapless (committed s) y)"
proof (induction rule: reachable.induct)
  case (init d)
  then show ?case by (simp add: lock_inv_def gapless_def seqs_of_def last_value_of_def)
next
  case (after s s')
  then show ?case using step_atomic gapless_atomic_change by blast
qed

section \<open>Splitting the job text\<close>

lemma split_once_None:
  "sep \<noteq> [] \<Longrightarrow> split_once sep s = None \<Longrightarrow> s \<noteq> a @ sep @ b"
proof (induction s arbitrary: a)
  case Nil
  then show ?case by simp
next
  case (Cons c cs)
  from Cons.prems have nt: "take (length sep) (c # cs) \<noteq> sep" and n: "split_once sep cs = None"
    by (auto split: if_splits option.splits)
  show ?case
  proof (cases a)
    case Nil
    with nt show ?thesis by auto
  next
    case (Cons x a')
    with Cons.IH [OF Cons.prems(1) n, of a'] show ?thesis by auto
  qed
qed

lemma split_once_Some:
  "sep \<noteq> [] \<Longrightarrow> split_once sep s = Some (a, b) \<Longrightarrow>
     s = a @ sep @ b \<and> (\<forall>a' b'. s = a' @ sep @ b' \<longrightarrow> length a \<le> length a')"
proof (induction s arbitrary: a)
  case Nil
  then show ?case by simp
next
  case (Cons c cs)
  show ?case
  proof (cases "take (length sep) (c # cs) = sep")
    case True
    with Cons.prems have "a = []" "b = drop (length sep) (c # cs)" by auto
    with True show ?thesis
      by (metis append_Nil append_take_drop_id le0 list.size(3))
  next
    case False
    with Cons.prems obtain a0 where s: "split_once sep cs = Some (a0, b)" and a: "a = c # a0"
      by (auto split: option.splits)
    from Cons.IH [OF Cons.prems(1) s] have eq: "cs = a0 @ sep @ b"
      and mn: "\<forall>a' b'. cs = a' @ sep @ b' \<longrightarrow> length a0 \<le> length a'" by blast+
    have "length a \<le> length a'" if h: "c # cs = a' @ sep @ b'" for a' b'
    proof (cases a')
      case Nil
      with h False show ?thesis by auto
    next
      case (Cons x a'')
      with h have "cs = a'' @ sep @ b'" by simp
      with mn have "length a0 \<le> length a''" by blast
      with a Cons show ?thesis by simp
    qed
    with eq a show ?thesis by simp
  qed
qed

text \<open>The leftmost occurrence of the separator determines the split.\<close>

lemma split_once_leftmost:
  assumes "sep \<noteq> []" and "s = a @ sep @ b"
    and "\<forall>a' b'. s = a' @ sep @ b' \<longrightarrow> length a \<le> length a'"
  shows "split_once sep s = Some (a, b)"
proof (cases "split_once sep s")
  case None
  from split_once_None [OF assms(1) None] assms(2) show ?thesis by blast
next
  case (Some p)
  obtain a0 b0 where p: "p = (a0, b0)" by (cases p)
  from split_once_Some [OF assms(1)] Some p have eq: "s = a0 @ sep @ b0"
    and mn: "\<forall>a' b'. s = a' @ sep @ b' \<longrightarrow> length a0 \<le> length a'" by blast+
  from mn assms(2) have "length a0 \<le> length a" by blast
  moreover from assms(3) eq have "length a \<le> length a0" by blast
  ultimately have "length a0 = length a" by simp
  with eq assms(2) have "a0 = a \<and> b0 = b" by (metis append_eq_append_conv same_append_eq)
  with Some p show ?thesis by simp
qed

lemma split_once_absent:
  assumes "sep \<noteq> []" and "\<forall>a b. s \<noteq> a @ sep @ b"
  shows "split_once sep s = None"
proof (cases "split_once sep s")
  case None
  then show ?thesis .
next
  case (Some p)
  with split_once_Some [OF assms(1), of s "fst p" "snd p"] assms(2) show ?thesis by auto
qed

lemma validate_form_job:
  assumes "validate_form e form d = Inr v"
  shows "(job_id_value v, req_job_code v, req_job_name v, req_customer v) =
          job_snapshot
            (if strip (form_get form ''job_id'' []) \<noteq> []
             then select_job e d (strip (form_get form ''job_id'' [])) else None)
            (strip (form_get form ''job_entry'' [])) (strip (form_get form ''customer'' []))"
  using assms
  by (auto simp: validate_form_def Let_def split: if_splits option.splits)

lemma new_ticket_committed:
  assumes "idle cid s" and "new_ticket cid e form s = (r, s')" and "committed s' \<noteq> committed s"
  shows "\<exists>v created bytes number path.
           validate_form e form (committed s) = Inr v \<and> writer s = None \<and>
           created_at_of e v = Inr created \<and> pdf_bytes_result e = Some bytes \<and>
           number = ''DT-'' @ str_nat (now_year e) @ ''-'' @
                    zfill 6 (str_nat (last_value_of (committed s) (now_year e) + 1)) \<and>
           r = after_commit e v number \<and>
           committed s' = (committed s)
             \<lparr>sequence_table :=
                (sequence_table (committed s))
                  (now_year e \<mapsto> last_value_of (committed s) (now_year e) + 1),
              tickets := tickets (committed s) @
                [(ticket_values number (now_year e)
                    (last_value_of (committed s) (now_year e) + 1) v created path bytes)
                 \<lparr>ticket_id := new_rowid (committed s)\<rparr>]\<rparr>"
proof -
  from new_ticket_outcome [OF assms(1,2)] assms(3)
  obtain v p where v: "validate_form e form (committed s) = Inr v" and w: "writer s = None"
    and t: "ticket_txn e v (committed s) = (Ok p, committed s')"
    and r: "r = after_commit e v (fst p)" by blast
  from ticket_txn_Ok [OF t] v w r show ?thesis by fastforce
qed

lemma ex_form_validate:
  assumes "to_float e ''12.5'' = Some (25 / 2)"
  shows "validate_form e ex_form d =
           Inr \<lparr>req_direction = ''IN'', job_id_value = None, req_job_code = ''J100'',
                req_job_name = ''Main St'', req_customer = [], truck_id_value = None,
                req_truck_number = ''T12'', material_id_value = None,
                req_material_name = ''Gravel'', quantity_num = 25 / 2, req_unit = ''Ton'',
                req_notes = [], auto_print = False, use_now = True,
                custom_datetime = None\<rparr>"
  using assms
  by (simp add: validate_form_def job_snapshot_def ex_form_def string_eval Let_def)

section \<open>Required fields\<close>




text \<open>
  Claim C1. In every state the system reaches, with any number of requests in flight, the
  sequence values of the committed tickets of a year \<open>y\<close> are distinct and are exactly
  \<open>1, \<dots>, N\<close> for the number \<open>N\<close> of tickets of that year, and the committed counter of the
  year is \<open>N\<close>. A step of any connection changes the committed tickets and counters not at
  all, or by one ticket together with the increment of its year's counter: the increment of
  \<^verbatim>\<open>next_ticket_number\<close> and the INSERT are committed by the same \<^verbatim>\<open>BEGIN IMMEDIATE\<close>
  transaction. The year of a ticket is its \<^verbatim>\<open>ticket_year\<close>.
\<close>

theorem ticket_sequence_gapless:
  "reachable s \<Longrightarrow>
     gapless (committed s) y \<and>
     (\<forall>s'. step s s' \<longrightarrow> atomic_change (committed s) (committed s'))"
  using reachable_inv step_atomic by blast

theorem ticket_sequence_gapless_witness:
  "reachable ex_two \<and> gapless (committed ex_two) 2026 \<and>
   seqs_of (committed ex_two) 2026 = [1, 2] \<and>
   begin_immediate 2 ex_locked = Inl OperationalError \<and>
   step ex_locked ex_one \<and> atomic_change (committed ex_locked) (committed ex_one)"
proof -
  have r0: "reachable ex_db"
    unfolding ex_db_def by (rule reachable.init) (simp_all add: ex_empty_def)
  have "begin_immediate 1 ex_db = Inr ex_locked"
    by (simp add: begin_immediate_def ex_db_def ex_locked_def)
  then have r1: "reachable ex_locked"
    using r0 step.acquire reachable.after by blast
  have "writer ex_locked = Some (1, ex_empty)" by (simp add: ex_locked_def)
  then have s1: "step ex_locked ex_one"
    unfolding ex_one_def by (rule step.finish)
  with r1 have r2: "reachable ex_one" by (rule reachable.after)
  from ticket_sequence_gapless [OF r1, of 2026] s1
  have a: "atomic_change (committed ex_locked) (committed ex_one)" by blast
  have "writer ex_one = None" by (simp add: txn_eval ex_eval string_eval)
  then have "begin_immediate 2 ex_one = Inr ex_locked2"
    by (simp add: begin_immediate_def ex_locked2_def)
  then have r3: "reachable ex_locked2"
    using r2 step.acquire reachable.after by blast
  have "writer ex_locked2 = Some (2, committed ex_one)" by (simp add: ex_locked2_def)
  then have "step ex_locked2 ex_two"
    unfolding ex_two_def by (rule step.finish)
  with r3 have r4: "reachable ex_two" by (rule reachable.after)
  have v: "seqs_of (committed ex_two) 2026 = [1, 2]"
    by (simp add: seqs_of_def txn_eval ex_eval string_eval)
  have b: "begin_immediate 2 ex_locked = Inl OperationalError"
    by (simp add: begin_immediate_def ex_locked_def)
  from ticket_sequence_gapless [OF r4, of 2026] r4 v b s1 a show ?thesis by simp
qed

text \<open>
  Claim C2. When \<^verbatim>\<open>to_pdf_bytes\<close>, \<^verbatim>\<open>save_pdf\<close>, the INSERT or the COMMIT fails, the committed
  tables are as before the request: the counter has its value from before the allocation and
  there is no new ticket; an exception leaves the database exactly as the request found it,
  and so does any request that did not commit once its connection is closed. Whenever the
  committed tables change, exactly one ticket has been appended, it carries the bytes
  returned by \<^verbatim>\<open>to_pdf_bytes\<close>, and its year's counter is its sequence value.
\<close>

theorem failed_creation_rolls_back:
  assumes "idle cid s" and "new_ticket cid e form s = (r, s')"
  shows "(pdf_bytes_result e = None \<or> \<not> save_pdf_ok e \<or> insert_error e \<or> commit_error e \<longrightarrow>
            committed s' = committed s \<and> close_db cid s' = s \<and>
            (\<forall>x. r = Error500 x \<longrightarrow> s' = s)) \<and>
         (committed s' \<noteq> committed s \<longrightarrow>
            (\<exists>t bytes. tickets (committed s') = tickets (committed s) @ [t] \<and>
               pdf_bytes_result e = Some bytes \<and> pdf_blob t = bytes \<and>
               sequence_table (committed s') =
                 (sequence_table (committed s))(ticket_year t \<mapsto> ticket_sequence t)))"
proof -
  from new_ticket_outcome [OF assms] show ?thesis
  proof
    assume "committed s' = committed s \<and> close_db cid s' = s \<and>
            (\<forall>x. r = Error500 x \<longrightarrow> s' = s)"
    then show ?thesis by simp
  next
    assume "\<exists>v p. validate_form e form (committed s) = Inr v \<and> writer s = None \<and>
                ticket_txn e v (committed s) = (Ok p, committed s') \<and> \<not> commit_error e \<and>
                writer s' = None \<and> r = after_commit e v (fst p)"
    then obtain v p where t: "ticket_txn e v (committed s) = (Ok p, committed s')"
      and c: "\<not> commit_error e" by blast
    from ticket_txn_Ok [OF t] c show ?thesis
      by (auto simp: ticket_values_def)
  qed
qed

theorem failed_creation_rolls_back_witness:
  "idle 1 ex_db \<and>
   new_ticket 1 ex_env_nopdf ex_form ex_db = (Error500 RenderError, ex_db) \<and>
   pdf_bytes_result ex_env_nopdf = None \<and>
   sequence_table (committed ex_db) 2026 = None \<and> tickets (committed ex_db) = [] \<and>
   map pdf_blob (tickets (committed (snd (new_ticket 1 ex_env ex_form ex_db)))) = [''%PDF-1.4'']"
proof -
  have i: "idle 1 ex_db" by (simp add: idle_def ex_db_def)
  have n: "new_ticket 1 ex_env_nopdf ex_form ex_db = (Error500 RenderError, ex_db)"
    by (simp add: ex_env_nopdf_def txn_eval ex_eval string_eval)
  have p: "pdf_bytes_result ex_env_nopdf = None" by (simp add: ex_env_nopdf_def)
  obtain r s' where m: "new_ticket 1 ex_env ex_form ex_db = (r, s')" by fastforce
  then have c: "committed s' \<noteq> committed ex_db"
    by (auto simp: txn_eval ex_eval string_eval)
  from failed_creation_rolls_back [OF i m] c
  have "map pdf_blob (tickets (committed s')) = [''%PDF-1.4'']"
    by (auto simp: ex_eval)
  with failed_creation_rolls_back [OF i n] p i n m show ?thesis
    by (simp add: ex_db_def ex_empty_def)
qed

text \<open>
  Claim C5. For a request that stores a ticket and whose job identifier is empty or resolves
  to no row of the cache: when the trimmed job text is \<open>a\<close>, then \<^verbatim>\<open>" - "\<close>, then \<open>b\<close>, with
  no occurrence of the separator starting further left, the stored job code is \<open>a\<close> trimmed
  and the stored job name is \<open>b\<close> trimmed; when the job text does not contain the separator,
  both are the job text. And the scenario: in a year without tickets, direction IN, job text
  \<^verbatim>\<open>J100 - Main St\<close>, truck \<^verbatim>\<open>T12\<close>, material \<^verbatim>\<open>Gravel\<close>, quantity \<^verbatim>\<open>12.5\<close> and unit \<^verbatim>\<open>Ton\<close> store
  these values, job code \<^verbatim>\<open>J100\<close>, job name \<^verbatim>\<open>Main St\<close>, and the number \<^verbatim>\<open>DT-<year>-000001\<close>.
\<close>

theorem free_text_job_snapshot:
  "(idle cid s \<and> new_ticket cid e form s = (r, s') \<and> committed s' \<noteq> committed s \<and>
    (strip (form_get form ''job_id'' []) = [] \<or>
     select_job e (committed s) (strip (form_get form ''job_id'' [])) = None) \<longrightarrow>
    (\<exists>t. tickets (committed s') = tickets (committed s) @ [t] \<and>
       (\<forall>a b. strip (form_get form ''job_entry'' []) = a @ '' - '' @ b \<and>
              (\<forall>a' b'. strip (form_get form ''job_entry'' []) = a' @ '' - '' @ b' \<longrightarrow>
                       length a \<le> length a') \<longrightarrow>
              job_code_snapshot t = strip a \<and> job_name_snapshot t = strip b) \<and>
       ((\<forall>a b. strip (form_get form ''job_entry'' []) \<noteq> a @ '' - '' @ b) \<longrightarrow>
          job_code_snapshot t = strip (form_get form ''job_entry'' []) \<and>
          job_name_snapshot t = strip (form_get form ''job_entry'' [])))) \<and>
   (writer s = None \<and> to_float e ''12.5'' = Some (25 / 2) \<and> pdf_bytes_result e = Some bytes \<and>
    save_pdf_ok e \<and> \<not> insert_error e \<and> \<not> commit_error e \<and>
    last_value_of (committed s) (now_year e) = 0 \<and>
    ''DT-'' @ str_nat (now_year e) @ ''-000001'' \<notin> set (map ticket_number (tickets (committed s))) \<longrightarrow>
    (\<exists>t. tickets (committed (snd (new_ticket cid e ex_form s))) = tickets (committed s) @ [t] \<and>
       direction t = ''IN'' \<and> job_code_snapshot t = ''J100'' \<and> job_name_snapshot t = ''Main St'' \<and>
       truck_number_snapshot t = ''T12'' \<and> material_name_snapshot t = ''Gravel'' \<and>
       quantity t = 25 / 2 \<and> unit_label t = ''Ton'' \<and>
       ticket_number t = ''DT-'' @ str_nat (now_year e) @ ''-000001''))"
proof (intro conjI impI)
  let ?entry = "strip (form_get form ''job_entry'' [])"
  assume h: "idle cid s \<and> new_ticket cid e form s = (r, s') \<and> committed s' \<noteq> committed s \<and>
    (strip (form_get form ''job_id'' []) = [] \<or>
     select_job e (committed s) (strip (form_get form ''job_id'' [])) = None)"
  then have i: "idle cid s" and n: "new_ticket cid e form s = (r, s')"
    and c: "committed s' \<noteq> committed s" by simp_all
  from new_ticket_committed [OF i n c] obtain v t where
    v: "validate_form e form (committed s) = Inr v"
    and t: "tickets (committed s') = tickets (committed s) @ [t]"
    and jc: "job_code_snapshot t = req_job_code v" and jn: "job_name_snapshot t = req_job_name v"
    by (auto simp: ticket_values_def)
  from validate_form_job [OF v] h
  have js: "(job_id_value v, req_job_code v, req_job_name v, req_customer v) =
              job_snapshot None ?entry (strip (form_get form ''customer'' []))"
    by auto
  have sep: "'' - '' \<noteq> []" by simp
  have "job_code_snapshot t = strip a \<and> job_name_snapshot t = strip b"
    if "?entry = a @ '' - '' @ b \<and>
        (\<forall>a' b'. ?entry = a' @ '' - '' @ b' \<longrightarrow> length a \<le> length a')" for a b
  proof -
    from that split_once_leftmost [OF sep, of ?entry a b]
    have "split_once '' - '' ?entry = Some (a, b)" by blast
    with js jc jn show ?thesis by (simp add: job_snapshot_def)
  qed
  moreover have "job_code_snapshot t = ?entry \<and> job_name_snapshot t = ?entry"
    if "\<forall>a b. ?entry \<noteq> a @ '' - '' @ b"
  proof -
    from that split_once_absent [OF sep, of ?entry]
    have "split_once '' - '' ?entry = None" by blast
    with js jc jn show ?thesis by (simp add: job_snapshot_def)
  qed
  ultimately show "\<exists>t. tickets (committed s') = tickets (committed s) @ [t] \<and>
       (\<forall>a b. ?entry = a @ '' - '' @ b \<and>
              (\<forall>a' b'. ?entry = a' @ '' - '' @ b' \<longrightarrow> length a \<le> length a') \<longrightarrow>
              job_code_snapshot t = strip a \<and> job_name_snapshot t = strip b) \<and>
       ((\<forall>a b. ?entry \<noteq> a @ '' - '' @ b) \<longrightarrow>
          job_code_snapshot t = ?entry \<and> job_name_snapshot t = ?entry)"
    using t by blast
next
  assume h: "writer s = None \<and> to_float e ''12.5'' = Some (25 / 2) \<and>
    pdf_bytes_result e = Some bytes \<and> save_pdf_ok e \<and> \<not> insert_error e \<and> \<not> commit_error e \<and>
    last_value_of (committed s) (now_year e) = 0 \<and>
    ''DT-'' @ str_nat (now_year e) @ ''-000001'' \<notin> set (map ticket_number (tickets (committed s)))"
  have z: "zfill 6 (str_nat (Suc 0)) = ''000001''" by (simp add: string_eval)
  let ?s1 = "s\<lparr>writer := Some (cid, committed s)\<rparr>"
  from h have vw: "view cid s = committed s" by (simp add: view_def)
  have vw1: "view cid ?s1 = committed s" by (simp add: view_def)
  from h ex_form_validate [of e "committed s"] vw vw1 z
  show "\<exists>t. tickets (committed (snd (new_ticket cid e ex_form s))) = tickets (committed s) @ [t] \<and>
       direction t = ''IN'' \<and> job_code_snapshot t = ''J100'' \<and> job_name_snapshot t = ''Main St'' \<and>
       truck_number_snapshot t = ''T12'' \<and> material_name_snapshot t = ''Gravel'' \<and>
       quantity t = 25 / 2 \<and> unit_label t = ''Ton'' \<and>
       ticket_number t = ''DT-'' @ str_nat (now_year e) @ ''-000001''"
    by (simp add: new_ticket_def begin_immediate_def run_txn_def ticket_txn_def
          next_ticket_number_eq created_at_of_def save_pdf_def insert_ticket_def
          ticket_values_def commit_def)
qed

theorem free_text_job_snapshot_witness:
  "idle 1 ex_db \<and> strip (form_get ex_form ''job_id'' []) = [] \<and>
   strip (form_get ex_form ''job_entry'' []) = ''J100'' @ '' - '' @ ''Main St'' \<and>
   strip (form_get ex_form_plain ''job_entry'' []) = ''Yard'' \<and>
   map (\<lambda>t. (job_code_snapshot t, job_name_snapshot t))
     (tickets (committed (snd (new_ticket 1 ex_env ex_form ex_db)))) = [(''J100'', ''Main St'')] \<and>
   map (\<lambda>t. (job_code_snapshot t, job_name_snapshot t))
     (tickets (committed (snd (new_ticket 1 ex_env ex_form_plain ex_db)))) = [(''Yard'', ''Yard'')] \<and>
   map ticket_number (tickets (committed (snd (new_ticket 1 ex_env ex_form ex_db)))) =
     [''DT-2026-000001'']"
proof -
  have sep: "'' - '' \<noteq> []" by simp
  have i: "idle 1 ex_db" by (simp add: idle_def ex_db_def)
  have j: "strip (form_get ex_form ''job_id'' []) = []" by (simp add: ex_eval string_eval)
  have j': "strip (form_get ex_form_plain ''job_id'' []) = []" by (simp add: ex_eval string_eval)
  have en: "strip (form_get ex_form ''job_entry'' []) = ''J100'' @ '' - '' @ ''Main St''"
    by (simp add: ex_eval string_eval)
  have en': "strip (form_get ex_form_plain ''job_entry'' []) = ''Yard''"
    by (simp add: ex_eval string_eval)
  have "split_once '' - '' (''J100'' @ '' - '' @ ''Main St'') = Some (''J100'', ''Main St'')"
    by simp
  from split_once_Some [OF sep this]
  have left: "\<forall>a' b'. ''J100'' @ '' - '' @ ''Main St'' = a' @ '' - '' @ b' \<longrightarrow>
                length ''J100'' \<le> length a'" by blast
  have "split_once '' - '' ''Yard'' = None" by simp
  from split_once_None [OF sep this] have none: "\<forall>a b. ''Yard'' \<noteq> a @ '' - '' @ b" by blast
  have st: "strip ''J100'' = ''J100''" "strip ''Main St'' = ''Main St''"
    by (simp_all add: string_eval)
  obtain r s' where m: "new_ticket 1 ex_env ex_form ex_db = (r, s')" by fastforce
  then have c: "committed s' \<noteq> committed ex_db" "tickets (committed ex_db) = []"
    by (auto simp: txn_eval ex_eval string_eval)
  obtain r2 s2 where m2: "new_ticket 1 ex_env ex_form_plain ex_db = (r2, s2)" by fastforce
  then have c2: "committed s2 \<noteq> committed ex_db"
    by (auto simp: txn_eval ex_eval string_eval)
  note T = free_text_job_snapshot [of 1 ex_db ex_env ex_form r s' "''%PDF-1.4''"]
  have p1: "idle 1 ex_db \<and> new_ticket 1 ex_env ex_form ex_db = (r, s') \<and>
      committed s' \<noteq> committed ex_db \<and>
      (strip (form_get ex_form ''job_id'' []) = [] \<or>
       select_job ex_env (committed ex_db) (strip (form_get ex_form ''job_id'' [])) = None)"
    using i m c(1) j by simp
  from T [THEN conjunct1, THEN mp, OF p1] obtain t where
    t: "tickets (committed s') = tickets (committed ex_db) @ [t]" and
    ab: "\<forall>a b. strip (form_get ex_form ''job_entry'' []) = a @ '' - '' @ b \<and>
              (\<forall>a' b'. strip (form_get ex_form ''job_entry'' []) = a' @ '' - '' @ b' \<longrightarrow>
                       length a \<le> length a') \<longrightarrow>
              job_code_snapshot t = strip a \<and> job_name_snapshot t = strip b"
    by blast
  from ab [THEN spec [where x = "''J100''"], THEN spec [where x = "''Main St''"]] left st
  have "job_code_snapshot t = ''J100'' \<and> job_name_snapshot t = ''Main St''"
    unfolding en by simp
  with t c(2) have one: "map (\<lambda>t. (job_code_snapshot t, job_name_snapshot t))
      (tickets (committed s')) = [(''J100'', ''Main St'')]"
    by simp
  note T2 = free_text_job_snapshot [of 1 ex_db ex_env ex_form_plain r2 s2 "''%PDF-1.4''"]
  have p2: "idle 1 ex_db \<and> new_ticket 1 ex_env ex_form_plain ex_db = (r2, s2) \<and>
      committed s2 \<noteq> committed ex_db \<and>
      (strip (form_get ex_form_plain ''job_id'' []) = [] \<or>
       select_job ex_env (committed ex_db) (strip (form_get ex_form_plain ''job_id'' [])) = None)"
    using i m2 c2 j' by simp
  from T2 [THEN conjunct1, THEN mp, OF p2] obtain t2 where
    t2: "tickets (committed s2) = tickets (committed ex_db) @ [t2]" and
    no: "(\<forall>a b. strip (form_get ex_form_plain ''job_entry'' []) \<noteq> a @ '' - '' @ b) \<longrightarrow>
          job_code_snapshot t2 = strip (form_get ex_form_plain ''job_entry'' []) \<and>
          job_name_snapshot t2 = strip (form_get ex_form_plain ''job_entry'' [])"
    by blast
  from no none have "job_code_snapshot t2 = ''Yard'' \<and> job_name_snapshot t2 = ''Yard''"
    unfolding en' by blast
  with t2 c(2) have two: "map (\<lambda>t. (job_code_snapshot t, job_name_snapshot t))
      (tickets (committed s2)) = [(''Yard'', ''Yard'')]"
    by simp
  have hyp: "writer ex_db = None \<and> to_float ex_env ''12.5'' = Some (25 / 2) \<and>
    pdf_bytes_result ex_env = Some ''%PDF-1.4'' \<and> save_pdf_ok ex_env \<and> \<not> insert_error ex_env \<and>
    \<not> commit_error ex_env \<and> last_value_of (committed ex_db) (now_year ex_env) = 0 \<and>
    ''DT-'' @ str_nat (now_year ex_env) @ ''-000001'' \<notin>
      set (map ticket_number (tickets (committed ex_db)))"
    by (simp add: ex_db_def ex_env_def ex_empty_def last_value_of_def)
  from T [THEN conjunct2, THEN mp, OF hyp] obtain t3 where
    "tickets (committed (snd (new_ticket 1 ex_env ex_form ex_db))) =
       tickets (committed ex_db) @ [t3]"
    "ticket_number t3 = ''DT-'' @ str_nat (now_year ex_env) @ ''-000001''"
    by blast
  with c(2)
  have three: "map ticket_number (tickets (committed (snd (new_ticket 1 ex_env ex_form ex_db)))) =
          [''DT-2026-000001'']"
    by (simp add: ex_env_def str_nat_examples)
  from i j en en' one two three m m2 show ?thesis by simp
qed




text \<open>
  Claim C7, at a request without "use current time" and without a creation time, or with one
  that does not parse: the error message is produced after \<^verbatim>\<open>BEGIN IMMEDIATE\<close> and after
  \<^verbatim>\<open>next_ticket_number\<close> has raised the counter, and the handler returns with this
  transaction open, holding the write lock. The check of the quantity, a few lines earlier,
  answers before any statement. The open transaction is discarded when the connection is
  closed at the end of the request.
\<close>

theorem timestamp_checked_after_allocation:
  "new_ticket 1 ex_env ex_form_no_time ex_db =
     (Flash ''Please select a valid date and time.'' ''error'',
      \<lparr>committed = ex_empty,
       writer = Some (1, ex_empty\<lparr>sequence_table := [2026 \<mapsto> 1]\<rparr>)\<rparr>) \<and>
   new_ticket 1 ex_env (ex_form_no_time(''custom_datetime'' \<mapsto> ''yesterday'')) ex_db =
     (Flash ''Invalid date format.'' ''error'',
      \<lparr>committed = ex_empty,
       writer = Some (1, ex_empty\<lparr>sequence_table := [2026 \<mapsto> 1]\<rparr>)\<rparr>) \<and>
   new_ticket 1 ex_env (ex_form_no_time(''quantity'' \<mapsto> ''many'')) ex_db =
     (Flash ''Quantity must be numeric.'' ''error'', ex_db) \<and>
   new_ticket_request 1 ex_env ex_form_no_time ex_db =
     (Flash ''Please select a valid date and time.'' ''error'', ex_db)"
  by (simp add: txn_eval ex_eval string_eval)

text \<open>
  Claim C10. The ticket a request commits has as \<^verbatim>\<open>ticket_year\<close>, and as the year in its
  \<^verbatim>\<open>ticket_number\<close>, the year \<^verbatim>\<open>datetime.now().year\<close> read by \<^verbatim>\<open>next_ticket_number\<close>; its sequence
  value is drawn from that year's counter. Its \<^verbatim>\<open>created_at\<close> is chosen separately, from
  the clock or from the timestamp entered by hand, and has no part in the numbering: a
  ticket dated 2020 created in 2026 is numbered under 2026.
\<close>

theorem ticket_year_is_clock_year:
  assumes "idle cid s" and "new_ticket cid e form s = (r, s')" and "committed s' \<noteq> committed s"
  shows "\<exists>t v. tickets (committed s') = tickets (committed s) @ [t] \<and>
           ticket_year t = now_year e \<and>
           ticket_sequence t = last_value_of (committed s) (now_year e) + 1 \<and>
           ticket_number t =
             ''DT-'' @ str_nat (now_year e) @ ''-'' @ zfill 6 (str_nat (ticket_sequence t)) \<and>
           sequence_table (committed s') =
             (sequence_table (committed s))(now_year e \<mapsto> ticket_sequence t) \<and>
           validate_form e form (committed s) = Inr v \<and>
           created_at_of e v = Inr (created_at t)"
  using new_ticket_committed [OF assms]
  by (auto simp: ticket_values_def)

theorem ticket_year_is_clock_year_witness:
  "idle 1 ex_db \<and>
   committed (snd (new_ticket 1 ex_env ex_form_custom ex_db)) \<noteq> committed ex_db \<and>
   map (\<lambda>t. (ticket_number t, ticket_year t, ticket_sequence t, created_at t))
     (tickets (committed (snd (new_ticket 1 ex_env ex_form_custom ex_db)))) =
     [(''DT-2026-000001'', 2026, 1, ''2020-01-02T03:04:00'')] \<and>
   now_year ex_env = 2026"
proof -
  have i: "idle 1 ex_db" by (simp add: idle_def ex_db_def)
  obtain r s' where m: "new_ticket 1 ex_env ex_form_custom ex_db = (r, s')" by fastforce
  then have c: "committed s' \<noteq> committed ex_db"
    by (auto simp: txn_eval ex_eval string_eval)
  have y: "now_year ex_env = 2026" by (simp add: ex_env_def)
  from m have t: "map (\<lambda>t. (ticket_number t, ticket_year t, ticket_sequence t, created_at t))
     (tickets (committed s')) = [(''DT-2026-000001'', 2026, 1, ''2020-01-02T03:04:00'')]"
    by (auto simp: txn_eval ex_eval string_eval)
  from ticket_year_is_clock_year [OF i m c] i m c y t show ?thesis by simp
qed

section \<open>Totals and order of the report\<close>

lemma sum_list_by_key:
  fixes f :: "'a \<Rightarrow> rat"
  assumes "finite K" and "g ` set xs \<subseteq> K"
  shows "(\<Sum>k\<in>K. sum_list (map f (filter (\<lambda>x. g x = k) xs))) = sum_list (map f xs)"
  using assms(2)
proof (induction xs)
  case Nil
  then show ?case by simp
next
  case (Cons x xs)
  then have in_K: "g x \<in> K" and sub: "g ` set xs \<subseteq> K" by auto
  have "(\<Sum>k\<in>K. sum_list (map f (filter (\<lambda>y. g y = k) (x # xs)))) =
        (\<Sum>k\<in>K. (if k = g x then f x else 0) + sum_list (map f (filter (\<lambda>y. g y = k) xs)))"
    by (rule sum.cong) auto
  also have "\<dots> = (\<Sum>k\<in>K. if k = g x then f x else 0) +
                   (\<Sum>k\<in>K. sum_list (map f (filter (\<lambda>y. g y = k) xs)))"
    by (rule sum.distrib)
  also have "(\<Sum>k\<in>K. if k = g x then f x else 0) = f x"
    using assms(1) in_K by simp
  finally show ?case using Cons.IH [OF sub] by simp
qed

lemma sum_list_groups:
  fixes f :: "'a \<Rightarrow> rat" and g :: "'a \<Rightarrow> 'k::linorder"
  shows "sum_list (map (\<lambda>k. sum_list (map f (filter (\<lambda>x. g x = k) xs)))
           (sort (remdups (map g xs)))) = sum_list (map f xs)"
proof -
  have "distinct (sort (remdups (map g xs)))" by simp
  then have "sum_list (map (\<lambda>k. sum_list (map f (filter (\<lambda>x. g x = k) xs)))
           (sort (remdups (map g xs)))) =
        (\<Sum>k\<in>set (sort (remdups (map g xs))). sum_list (map f (filter (\<lambda>x. g x = k) xs)))"
    by (rule sum_list_distinct_conv_sum_set)
  also have "\<dots> = sum_list (map f xs)"
    by (rule sum_list_by_key) simp_all
  finally show ?thesis .
qed

text \<open>Where SQLite's sum of every group is the exact sum, the totals add up exactly.\<close>

lemma totals_by_unit_sum:
  assumes "\<And>u. sql_sum e (map quantity (filter (\<lambda>t. unit_label t = u) rows)) =
                sum_list (map quantity (filter (\<lambda>t. unit_label t = u) rows))"
  shows "sum_list (map snd (totals_by_unit e rows)) = sum_list (map quantity rows)"
  unfolding totals_by_unit_def using sum_list_groups [of quantity unit_label rows]
  by (simp add: comp_def assms)

lemma totals_by_material_sum:
  assumes "\<And>m u. sql_sum e (map quantity
                     (filter (\<lambda>t. material_name_snapshot t = m \<and> unit_label t = u) rows)) =
                  sum_list (map quantity
                     (filter (\<lambda>t. material_name_snapshot t = m \<and> unit_label t = u) rows))"
  shows "sum_list (map (\<lambda>r. snd (snd r)) (totals_by_material e rows)) =
           sum_list (map quantity rows)"
proof -
  have "sql_sum e (map quantity
          (filter (\<lambda>t. (material_name_snapshot t, unit_label t) = k) rows)) =
        sum_list (map quantity
          (filter (\<lambda>t. (material_name_snapshot t, unit_label t) = k) rows))" for k
    using assms [of "fst k" "snd k"] by (cases k) simp
  then show ?thesis
    unfolding totals_by_material_def
    using sum_list_groups [of quantity "\<lambda>t. (material_name_snapshot t, unit_label t)" rows]
    by (simp add: comp_def)
qed

lemma totals_by_unit_entry:
  "(u, q) \<in> set (totals_by_unit e rows) \<longleftrightarrow>
     u \<in> set (map unit_label rows) \<and>
     q = sql_sum e (map quantity (filter (\<lambda>t. unit_label t = u) rows))"
  by (auto simp: totals_by_unit_def)

lemma totals_by_material_entry:
  "(m, u, q) \<in> set (totals_by_material e rows) \<longleftrightarrow>
     (m, u) \<in> set (map (\<lambda>t. (material_name_snapshot t, unit_label t)) rows) \<and>
     q = sql_sum e (map quantity
           (filter (\<lambda>t. material_name_snapshot t = m \<and> unit_label t = u) rows))"
  by (force simp: totals_by_material_def image_iff)

lemma totals_keys_distinct:
  "distinct (map fst (totals_by_unit e rows))"
  "distinct (map (\<lambda>r. (fst r, fst (snd r))) (totals_by_material e rows))"
  by (simp_all add: totals_by_unit_def totals_by_material_def comp_def)

lemma report_where_offset: "report_where e (args(''offset'' \<mapsto> off)) = report_where e args"
  by (simp add: report_where_def form_get_def)

lemma reports_Inr:
  assumes "reports e args d = Inr (page, by_unit, by_material)"
  shows "\<exists>offset. report_offset e args = Some offset \<and>
           page = take 20 (drop (nat offset)
                    (sort_key report_key (select_where e (report_where e args) d))) \<and>
           by_unit = totals_by_unit e (select_where e (report_where e args) d) \<and>
           by_material = totals_by_material e (select_where e (report_where e args) d)"
  using assms by (auto simp: reports_def Let_def split: option.splits)

lemma report_key_le:
  "report_key a \<le> report_key b \<Longrightarrow> report_before a b"
  by (auto simp: report_key_def report_before_def less_eq_prod_def less_prod_def)

lemma sorted_page:
  "sorted (map report_key (take n (drop k (sort_key report_key rows))))"
proof -
  have "sorted (map report_key (sort_key report_key rows))" by (rule sorted_sort_key)
  then have "sorted (take n (drop k (map report_key (sort_key report_key rows))))"
    by (intro sorted_wrt_take sorted_wrt_drop)
  then show ?thesis by (simp add: take_map drop_map)
qed

section \<open>Reports\<close>

text \<open>
  Claim C3, at a request without dates on the four example tickets, on 4 November 2026:
  \<^verbatim>\<open>reports\<close> applies the window of the last 14 days and leaves out the ticket of January,
  \<^verbatim>\<open>export_reports_csv\<close> and \<^verbatim>\<open>print_reports\<close> apply no window and include it, in the rows and
  in both tables of totals.
\<close>

theorem default_window_only_in_reports:
  "(case reports ex_env Map.empty ex_report_db of
      Inl x \<Rightarrow> None
    | Inr (page, by_unit, by_material) \<Rightarrow> Some (map ticket_id page, by_unit, by_material)) =
     Some ([4, 3, 2], [(''Load'', 2), (''Ton'', 8)],
           [(''Gravel'', ''Load'', 2), (''Gravel'', ''Ton'', 5), (''Sand'', ''Ton'', 3)]) \<and>
   (case export_reports_csv ex_env Map.empty ex_report_db of
      (rows, by_unit, by_material) \<Rightarrow> (map ticket_id rows, by_unit, by_material)) =
     ([4, 3, 2, 1], [(''Load'', 2), (''Ton'', 15)],
      [(''Gravel'', ''Load'', 2), (''Gravel'', ''Ton'', 12), (''Sand'', ''Ton'', 3)]) \<and>
   (case print_reports ex_env Map.empty ex_report_db of
      (rows, by_unit, by_material) \<Rightarrow> (map ticket_id rows, by_unit, by_material)) =
     ([4, 3, 2, 1], [(''Load'', 2), (''Ton'', 15)],
      [(''Gravel'', ''Load'', 2), (''Gravel'', ''Ton'', 12), (''Sand'', ''Ton'', 3)])"
  by (simp add: report_eval ex_env_def string_eval)

text \<open>
  Claim C4, as the program computes it. The totals are sums in double precision. With the
  quantities 0.3 (Load), 0.2 and 0.1 (Ton) the total for Ton is 0.30000000000000004, which is
  not the sum of the two stored quantities; the totals by unit do not add up to the sum of
  the three quantities, neither as numbers nor when both sums are taken in double precision
  (0.6000000000000001 against 0.6).
\<close>

theorem exact_totals_counterexample:
  "reports ex_env_float Map.empty ex_float_db =
     Inr ([ex_ticket 3 ''Acme'' ''IN'' ''Gravel'' (3602879701896397 / 36028797018963968) ''Ton''
             ''2026-11-03T09:00:00'',
           ex_ticket 2 ''Acme'' ''IN'' ''Gravel'' (3602879701896397 / 18014398509481984) ''Ton''
             ''2026-11-02T09:00:00'',
           ex_ticket 1 ''Acme'' ''IN'' ''Gravel'' (5404319552844595 / 18014398509481984) ''Load''
             ''2026-11-01T09:00:00''],
          [(''Load'', 5404319552844595 / 18014398509481984),
           (''Ton'', 1351079888211149 / 4503599627370496)],
          [(''Gravel'', ''Load'', 5404319552844595 / 18014398509481984),
           (''Gravel'', ''Ton'', 1351079888211149 / 4503599627370496)]) \<and>
   select_where ex_env_float (report_where ex_env_float Map.empty) ex_float_db =
     tickets ex_float_db \<and>
   sum_list (map snd [(''Load'', 5404319552844595 / 18014398509481984 :: rat),
                      (''Ton'', 1351079888211149 / 4503599627370496)]) \<noteq>
     sum_list (map quantity (tickets ex_float_db)) \<and>
   sql_sum ex_env_float (map snd [(''Load'', 5404319552844595 / 18014398509481984 :: rat),
                                  (''Ton'', 1351079888211149 / 4503599627370496)]) \<noteq>
     sql_sum ex_env_float (map quantity (tickets ex_float_db)) \<and>
   1351079888211149 / 4503599627370496 \<noteq>
     sum_list (map quantity
       [ex_ticket 2 ''Acme'' ''IN'' ''Gravel'' (3602879701896397 / 18014398509481984) ''Ton''
          ''2026-11-02T09:00:00'',
        ex_ticket 3 ''Acme'' ''IN'' ''Gravel'' (3602879701896397 / 36028797018963968) ''Ton''
          ''2026-11-03T09:00:00''])"
  by (simp add: report_eval ex_env_float_def ex_env_def string_eval)

text \<open>
  Claim C4, amended. Whatever the filters and the offset, the two tables of \<^verbatim>\<open>reports\<close> are
  computed from all tickets that satisfy the conditions of the request, not from the page:
  the table by unit has exactly one row for every unit of these tickets, holding SQLite's
  \<^verbatim>\<open>SUM\<close> of the quantities of all of them with that unit, and the table by material and unit
  likewise for every pair; another offset gives the same tables. Where SQLite's sum of each
  group is the exact sum of its quantities, the totals by unit add up to the sum of the
  quantities of these tickets, and so do the totals by material and unit.
\<close>

theorem report_totals_are_group_sums:
  assumes "reports e args d = Inr (page, by_unit, by_material)"
  shows "(\<forall>u q. (u, q) \<in> set by_unit \<longleftrightarrow>
            u \<in> set (map unit_label (select_where e (report_where e args) d)) \<and>
            q = sql_sum e (map quantity
                  (filter (\<lambda>t. unit_label t = u) (select_where e (report_where e args) d)))) \<and>
         (\<forall>m u q. (m, u, q) \<in> set by_material \<longleftrightarrow>
            (m, u) \<in> set (map (\<lambda>t. (material_name_snapshot t, unit_label t))
                        (select_where e (report_where e args) d)) \<and>
            q = sql_sum e (map quantity
                  (filter (\<lambda>t. material_name_snapshot t = m \<and> unit_label t = u)
                     (select_where e (report_where e args) d)))) \<and>
         distinct (map fst by_unit) \<and>
         distinct (map (\<lambda>r. (fst r, fst (snd r))) by_material) \<and>
         (\<forall>off page' by_unit' by_material'.
            reports e (args(''offset'' \<mapsto> off)) d = Inr (page', by_unit', by_material') \<longrightarrow>
            by_unit' = by_unit \<and> by_material' = by_material) \<and>
         ((\<forall>u. sql_sum e (map quantity
                  (filter (\<lambda>t. unit_label t = u) (select_where e (report_where e args) d))) =
               sum_list (map quantity
                  (filter (\<lambda>t. unit_label t = u) (select_where e (report_where e args) d)))) \<longrightarrow>
          sum_list (map snd by_unit) =
            sum_list (map quantity (select_where e (report_where e args) d))) \<and>
         ((\<forall>m u. sql_sum e (map quantity
                    (filter (\<lambda>t. material_name_snapshot t = m \<and> unit_label t = u)
                       (select_where e (report_where e args) d))) =
                 sum_list (map quantity
                    (filter (\<lambda>t. material_name_snapshot t = m \<and> unit_label t = u)
                       (select_where e (report_where e args) d)))) \<longrightarrow>
          sum_list (map (\<lambda>r. snd (snd r)) by_material) =
            sum_list (map quantity (select_where e (report_where e args) d)))"
proof -
  let ?rows = "select_where e (report_where e args) d"
  from reports_Inr [OF assms] have u: "by_unit = totals_by_unit e ?rows"
    and m: "by_material = totals_by_material e ?rows" by auto
  have off: "by_unit' = by_unit \<and> by_material' = by_material"
    if "reports e (args(''offset'' \<mapsto> off)) d = Inr (page', by_unit', by_material')"
    for off page' by_unit' by_material'
    using reports_Inr [OF that] u m by (auto simp: report_where_offset)
  have su: "sum_list (map snd by_unit) = sum_list (map quantity ?rows)"
    if "\<forall>u. sql_sum e (map quantity (filter (\<lambda>t. unit_label t = u) ?rows)) =
               sum_list (map quantity (filter (\<lambda>t. unit_label t = u) ?rows))"
    unfolding u using that by (intro totals_by_unit_sum) blast
  have sm: "sum_list (map (\<lambda>r. snd (snd r)) by_material) = sum_list (map quantity ?rows)"
    if "\<forall>m u. sql_sum e (map quantity
                    (filter (\<lambda>t. material_name_snapshot t = m \<and> unit_label t = u) ?rows)) =
                 sum_list (map quantity
                    (filter (\<lambda>t. material_name_snapshot t = m \<and> unit_label t = u) ?rows))"
    unfolding m using that by (intro totals_by_material_sum) blast
  from off su sm show ?thesis
    unfolding u m
    using totals_by_unit_entry [of _ _ e ?rows] totals_by_material_entry [of _ _ _ e ?rows]
      totals_keys_distinct [of e ?rows]
    by blast
qed

theorem report_totals_are_group_sums_witness:
  "reports ex_env [''offset'' \<mapsto> ''1''] ex_report_db =
     Inr ([ex_ticket 3 ''Acme'' ''IN'' ''Sand'' 3 ''Ton'' ''2026-11-02T09:00:00'',
           ex_ticket 2 ''Acme'' ''OUT'' ''Gravel'' 5 ''Ton'' ''2026-11-01T09:00:00''],
          [(''Load'', 2), (''Ton'', 8)],
          [(''Gravel'', ''Load'', 2), (''Gravel'', ''Ton'', 5), (''Sand'', ''Ton'', 3)]) \<and>
   sql_sum ex_env = sum_list \<and>
   sum_list (map quantity
     (select_where ex_env (report_where ex_env [''offset'' \<mapsto> ''1'']) ex_report_db)) = 10 \<and>
   sum_list (map snd [(''Load'', 2 :: rat), (''Ton'', 8)]) = 10 \<and>
   sum_list (map (\<lambda>r. snd (snd r))
     [(''Gravel'', ''Load'', 2 :: rat), (''Gravel'', ''Ton'', 5), (''Sand'', ''Ton'', 3)]) = 10 \<and>
   reports ex_env [''offset'' \<mapsto> ''0''] ex_report_db =
     Inr ([ex_ticket 4 ''Acme'' ''IN'' ''Gravel'' 2 ''Load'' ''2026-11-03T09:00:00'',
           ex_ticket 3 ''Acme'' ''IN'' ''Sand'' 3 ''Ton'' ''2026-11-02T09:00:00'',
           ex_ticket 2 ''Acme'' ''OUT'' ''Gravel'' 5 ''Ton'' ''2026-11-01T09:00:00''],
          [(''Load'', 2), (''Ton'', 8)],
          [(''Gravel'', ''Load'', 2), (''Gravel'', ''Ton'', 5), (''Sand'', ''Ton'', 3)])"
proof -
  have r: "reports ex_env [''offset'' \<mapsto> ''1''] ex_report_db =
     Inr ([ex_ticket 3 ''Acme'' ''IN'' ''Sand'' 3 ''Ton'' ''2026-11-02T09:00:00'',
           ex_ticket 2 ''Acme'' ''OUT'' ''Gravel'' 5 ''Ton'' ''2026-11-01T09:00:00''],
          [(''Load'', 2), (''Ton'', 8)],
          [(''Gravel'', ''Load'', 2), (''Gravel'', ''Ton'', 5), (''Sand'', ''Ton'', 3)])"
    by (simp add: report_eval ex_env_def string_eval)
  have x: "sql_sum ex_env = sum_list" by (simp add: ex_env_def)
  note T = report_totals_are_group_sums [OF r]
  from T x
  have a: "sum_list (map snd [(''Load'', 2 :: rat), (''Ton'', 8)]) =
     sum_list (map quantity
       (select_where ex_env (report_where ex_env [''offset'' \<mapsto> ''1'']) ex_report_db))"
    by simp
  have o: "reports ex_env [''offset'' \<mapsto> ''0''] ex_report_db =
     Inr ([ex_ticket 4 ''Acme'' ''IN'' ''Gravel'' 2 ''Load'' ''2026-11-03T09:00:00'',
           ex_ticket 3 ''Acme'' ''IN'' ''Sand'' 3 ''Ton'' ''2026-11-02T09:00:00'',
           ex_ticket 2 ''Acme'' ''OUT'' ''Gravel'' 5 ''Ton'' ''2026-11-01T09:00:00''],
          [(''Load'', 2), (''Ton'', 8)],
          [(''Gravel'', ''Load'', 2), (''Gravel'', ''Ton'', 5), (''Sand'', ''Ton'', 3)])"
    by (simp add: report_eval ex_env_def string_eval)
  from r x a o show ?thesis by simp
qed

text \<open>
  Claim C8. Whatever the filters, the page of \<^verbatim>\<open>reports\<close> has at most 20 tickets: the tickets
  that satisfy the conditions, put in the order of customer, direction rank and descending
  \<^verbatim>\<open>id\<close>, from the offset on. Of two tickets on the page the earlier has the smaller customer
  name, or the same customer and the smaller direction rank, or the same customer and rank
  and an \<^verbatim>\<open>id\<close> that is not smaller; the rank of \<^verbatim>\<open>IN\<close> is below that of \<^verbatim>\<open>OUT\<close>, which is
  below that of every other direction.
\<close>

theorem report_page_order:
  assumes "reports e args d = Inr (page, by_unit, by_material)"
  shows "length page \<le> 20 \<and>
         (\<exists>offset ordered.
            report_offset e args = Some offset \<and>
            set ordered = set (select_where e (report_where e args) d) \<and>
            length ordered = length (select_where e (report_where e args) d) \<and>
            sorted (map report_key ordered) \<and>
            page = take 20 (drop (nat offset) ordered)) \<and>
         (\<forall>i j. i < j \<and> j < length page \<longrightarrow> report_before (page ! i) (page ! j)) \<and>
         direction_rank ''IN'' < direction_rank ''OUT'' \<and>
         (\<forall>dir. dir \<noteq> ''IN'' \<and> dir \<noteq> ''OUT'' \<longrightarrow> direction_rank ''OUT'' < direction_rank dir)"
proof -
  let ?rows = "select_where e (report_where e args) d"
  from reports_Inr [OF assms] obtain offset where
    o: "report_offset e args = Some offset" and
    p: "page = take 20 (drop (nat offset) (sort_key report_key ?rows))" by blast
  have len: "length page \<le> 20" by (simp add: p)
  have ex: "\<exists>offset ordered.
            report_offset e args = Some offset \<and>
            set ordered = set ?rows \<and> length ordered = length ?rows \<and>
            sorted (map report_key ordered) \<and>
            page = take 20 (drop (nat offset) ordered)"
    using o p by (intro exI [of _ offset] exI [of _ "sort_key report_key ?rows"]) simp
  have srt: "sorted (map report_key page)" unfolding p by (rule sorted_page)
  have ord: "report_before (page ! i) (page ! j)" if "i < j \<and> j < length page" for i j
  proof -
    from that srt have "map report_key page ! i \<le> map report_key page ! j"
      by (simp add: sorted_iff_nth_mono)
    with that show ?thesis by (simp add: report_key_le)
  qed
  have rk: "direction_rank ''IN'' < direction_rank ''OUT'' \<and>
         (\<forall>dir. dir \<noteq> ''IN'' \<and> dir \<noteq> ''OUT'' \<longrightarrow> direction_rank ''OUT'' < direction_rank dir)"
    by (simp add: direction_rank_def)
  from len ex ord rk show ?thesis by blast
qed

theorem report_page_order_witness:
  "reports ex_env [''offset'' \<mapsto> ''1''] ex_report_db =
     Inr ([ex_ticket 3 ''Acme'' ''IN'' ''Sand'' 3 ''Ton'' ''2026-11-02T09:00:00'',
           ex_ticket 2 ''Acme'' ''OUT'' ''Gravel'' 5 ''Ton'' ''2026-11-01T09:00:00''],
          [(''Load'', 2), (''Ton'', 8)],
          [(''Gravel'', ''Load'', 2), (''Gravel'', ''Ton'', 5), (''Sand'', ''Ton'', 3)]) \<and>
   (0 :: nat) < 1 \<and> (1 :: nat) < length
     [ex_ticket 3 ''Acme'' ''IN'' ''Sand'' 3 ''Ton'' ''2026-11-02T09:00:00'',
      ex_ticket 2 ''Acme'' ''OUT'' ''Gravel'' 5 ''Ton'' ''2026-11-01T09:00:00''] \<and>
   report_before (ex_ticket 3 ''Acme'' ''IN'' ''Sand'' 3 ''Ton'' ''2026-11-02T09:00:00'')
     (ex_ticket 2 ''Acme'' ''OUT'' ''Gravel'' 5 ''Ton'' ''2026-11-01T09:00:00'') \<and>
   map ticket_id (case reports ex_env Map.empty ex_report_db of
                    Inl x \<Rightarrow> [] | Inr (page, by_unit, by_material) \<Rightarrow> page) = [4, 3, 2]"
proof -
  have r: "reports ex_env [''offset'' \<mapsto> ''1''] ex_report_db =
     Inr ([ex_ticket 3 ''Acme'' ''IN'' ''Sand'' 3 ''Ton'' ''2026-11-02T09:00:00'',
           ex_ticket 2 ''Acme'' ''OUT'' ''Gravel'' 5 ''Ton'' ''2026-11-01T09:00:00''],
          [(''Load'', 2), (''Ton'', 8)],
          [(''Gravel'', ''Load'', 2), (''Gravel'', ''Ton'', 5), (''Sand'', ''Ton'', 3)])"
    by (simp add: report_eval ex_env_def string_eval)
  from report_page_order [OF r]
  have "\<forall>i j. i < j \<and> j < length
     [ex_ticket 3 ''Acme'' ''IN'' ''Sand'' 3 ''Ton'' ''2026-11-02T09:00:00'',
      ex_ticket 2 ''Acme'' ''OUT'' ''Gravel'' 5 ''Ton'' ''2026-11-01T09:00:00''] \<longrightarrow>
     report_before
      ([ex_ticket 3 ''Acme'' ''IN'' ''Sand'' 3 ''Ton'' ''2026-11-02T09:00:00'',
        ex_ticket 2 ''Acme'' ''OUT'' ''Gravel'' 5 ''Ton'' ''2026-11-01T09:00:00''] ! i)
      ([ex_ticket 3 ''Acme'' ''IN'' ''Sand'' 3 ''Ton'' ''2026-11-02T09:00:00'',
        ex_ticket 2 ''Acme'' ''OUT'' ''Gravel'' 5 ''Ton'' ''2026-11-01T09:00:00''] ! j)"
    by blast
  from this [THEN spec [where x = 0], THEN spec [where x = 1]]
  have b: "report_before (ex_ticket 3 ''Acme'' ''IN'' ''Sand'' 3 ''Ton'' ''2026-11-02T09:00:00'')
     (ex_ticket 2 ''Acme'' ''OUT'' ''Gravel'' 5 ''Ton'' ''2026-11-01T09:00:00'')"
    by simp
  have a: "map ticket_id (case reports ex_env Map.empty ex_report_db of
                    Inl x \<Rightarrow> [] | Inr (page, by_unit, by_material) \<Rightarrow> page) = [4, 3, 2]"
    by (simp add: report_eval ex_env_def string_eval)
  from r b a show ?thesis by simp
qed

section \<open>Jobs synchronisation\<close>

lemma first_present_None:
  "first_present names fieldnames = None \<longleftrightarrow> (\<forall>n\<in>set names. n \<notin> set fieldnames)"
  by (auto simp: first_present_def find_None_iff)

text \<open>
  Claim C9. When the header of the jobs file has none of the columns \<^verbatim>\<open>job_code\<close>, \<^verbatim>\<open>Job #\<close>,
  \<^verbatim>\<open>Job#\<close>, \<^verbatim>\<open>Job Number\<close>, or none of the columns \<^verbatim>\<open>job_name\<close>, \<^verbatim>\<open>Job Name\<close>,
  \<^verbatim>\<open>refresh_jobs_cache\<close> raises a \<^verbatim>\<open>RuntimeError\<close> and has written nothing: the tables, and with
  them the jobs cache, are as before the call.
\<close>

theorem missing_column_fails_before_rows:
  assumes "csv_file src = Some (fieldnames, rows)"
    and "(\<forall>n\<in>set [''job_code'', ''Job #'', ''Job#'', ''Job Number'']. n \<notin> set fieldnames) \<or>
         (\<forall>n\<in>set [''job_name'', ''Job Name'']. n \<notin> set fieldnames)"
  shows "\<exists>msg. refresh_jobs_cache e src d = (Inl (RuntimeError msg), d)"
proof (cases "fieldnames = []")
  case True
  with assms(1) show ?thesis by (simp add: refresh_jobs_cache_def)
next
  case False
  from assms(2) have
    "first_present [''job_code'', ''Job #'', ''Job#'', ''Job Number''] fieldnames = None \<or>
     first_present [''job_name'', ''Job Name''] fieldnames = None"
    unfolding first_present_None by blast
  with assms(1) False show ?thesis
    by (auto simp: refresh_jobs_cache_def Let_def split: option.splits)
qed

theorem missing_column_fails_before_rows_witness:
  "csv_file ex_csv_no_code =
     Some ([''Job Name'', ''Customer Name''],
           [[''Job Name'' \<mapsto> ''Main St'', ''Customer Name'' \<mapsto> ''Acme'']]) \<and>
   refresh_jobs_cache ex_env ex_csv_no_code ex_empty =
     (Inl (RuntimeError ''CSV missing required columns: job_code or Job #''), ex_empty) \<and>
   (case refresh_jobs_cache ex_env ex_csv ex_empty of
      (r, d) \<Rightarrow> (r, map (\<lambda>j. (job_code j, job_name j, active j)) (jobs_cache d))) =
     (Inr 1, [(''J100'', ''Main St'', 1)])"
proof -
  have c: "csv_file ex_csv_no_code =
     Some ([''Job Name'', ''Customer Name''],
           [[''Job Name'' \<mapsto> ''Main St'', ''Customer Name'' \<mapsto> ''Acme'']])"
    by (simp add: ex_csv_no_code_def)
  have h: "(\<forall>n\<in>set [''job_code'', ''Job #'', ''Job#'', ''Job Number''].
              n \<notin> set [''Job Name'', ''Customer Name'']) \<or>
           (\<forall>n\<in>set [''job_name'', ''Job Name'']. n \<notin> set [''Job Name'', ''Customer Name''])"
    by simp
  from missing_column_fails_before_rows [OF c h, of ex_env ex_empty]
  obtain msg where m: "refresh_jobs_cache ex_env ex_csv_no_code ex_empty =
      (Inl (RuntimeError msg), ex_empty)" by blast
  have "fst (refresh_jobs_cache ex_env ex_csv_no_code ex_empty) =
      Inl (RuntimeError ''CSV missing required columns: job_code or Job #'')"
    by (simp add: refresh_jobs_cache_def ex_csv_no_code_def first_present_def join_def)
  with m have a: "refresh_jobs_cache ex_env ex_csv_no_code ex_empty =
     (Inl (RuntimeError ''CSV missing required columns: job_code or Job #''), ex_empty)"
    by simp
  have b: "(case refresh_jobs_cache ex_env ex_csv ex_empty of
      (r, d) \<Rightarrow> (r, map (\<lambda>j. (job_code j, job_name j, active j)) (jobs_cache d))) =
     (Inr 1, [(''J100'', ''Main St'', 1)])"
    by (simp add: refresh_jobs_cache_def ex_csv_def first_present_def sync_csv_row_def
          row_text_def upsert_job_cache_row_def new_job_id_def ex_empty_def ex_env_def
          string_eval Let_def)
  from c a b show ?thesis by simp
qed

end
